theory Spec2Isabelle
  imports Complex_Main "HOL-Library.Multiset" "HOL-Library.AList"
begin

section \<open>Sales bonus report: the data model\<close>

text \<open>
  The repository holds two versions of the same module, \<^verbatim>\<open>src/main.js\<close> and an
  unnamed second file (\<^verbatim>\<open>part_000\<close>). Both define \<^verbatim>\<open>calculateSimpleRevenue\<close>,
  \<^verbatim>\<open>calculateBonusByProfit\<close> and \<^verbatim>\<open>analyzeSalesData\<close>. The two strategy functions
  have the same body in both files and are embedded once; the analyser is embedded twice,
  with the suffix \<open>_main\<close> for \<^verbatim>\<open>src/main.js\<close> and \<open>_part\<close> for \<^verbatim>\<open>part_000\<close>.

  Names. Fields keep the names of the source, with a prefix where two records of the
  source share a name: \<open>s_id\<close> is the \<^verbatim>\<open>id\<close> of a seller, \<open>i_sku\<close> the \<^verbatim>\<open>sku\<close> of a
  line item, \<open>a_id\<close> and \<open>a_name\<close> the \<^verbatim>\<open>id\<close> and \<^verbatim>\<open>name\<close> of an accumulator,
  and \<open>r_seller_id\<close>, \<open>r_name\<close>, \<open>r_revenue\<close>, \<open>r_profit\<close>, \<open>r_sales_count\<close>,
  \<open>r_top_products\<close>, \<open>r_bonus\<close> the fields of a report.

  Numbers. A JavaScript number is modelled by a rational and its arithmetic by exact
  arithmetic: the binary rounding of IEEE doubles is not modelled. The general theorems
  therefore say where the source applies \<^verbatim>\<open>toFixed(2)\<close> and use of it only that it is
  monotone and idempotent, which holds of doubles as well; they never state that two sums
  rounded at different places agree, which exact arithmetic would prove and doubles
  refute. The concrete inputs evaluated below are chosen so that every intermediate value
  is either exactly representable as a double or far from a rounding tie.

  Objects. An object used as a dictionary is modelled by the map of its own properties.
  A lookup \<^verbatim>\<open>obj[key]\<close> of the language also finds the members that the object inherits
  from \<^verbatim>\<open>Object.prototype\<close>; the analysers \<open>analyzeSalesData_part\<close> and
  \<open>analyzeSalesData_main\<close> below are the source on the inputs in which no looked-up key
  names such a member, and \<open>analyzeSalesData_part_js\<close> and \<open>analyzeSalesData_main_js\<close> add
  what the source does on the other inputs.
\<close>

record seller =
  s_id :: string
  first_name :: string
  last_name :: string

record product =
  sku :: string
  purchase_price :: rat

record line_item =
  i_sku :: string
  quantity :: rat
  sale_price :: rat
  discount :: rat

record purchase_record =
  seller_id :: string
  items :: "line_item list"

text \<open>
  The element of \<^verbatim>\<open>sellerStats\<close>. The fields \<^verbatim>\<open>bonus\<close> and \<^verbatim>\<open>top_products\<close> are
  added to the object after ranking: they form the extension \<open>ranked\<close>.
\<close>

record stats =
  a_id :: string
  a_name :: string
  revenue :: rat
  profit :: rat
  sales_count :: nat
  products_sold :: "(string \<times> rat) list"

record ranked = stats +
  bonus :: rat
  top_products :: "(string \<times> rat) list"

text \<open>
  The value of the field \<^verbatim>\<open>top_products\<close> of a report is a list of
  \<^verbatim>\<open>{sku, quantity}\<close> objects in one file and the result of a unary plus, a number, in
  the other.
\<close>

datatype js_number = Num rat | NaN

datatype js_value = JsArray "(string \<times> rat) list" | JsNumber js_number

record report =
  r_seller_id :: string
  r_name :: string
  r_revenue :: rat
  r_profit :: rat
  r_sales_count :: nat
  r_top_products :: js_value
  r_bonus :: rat

text \<open>
  The arguments as JavaScript passes them. A property that should hold an array may be
  absent or hold something else; \<^verbatim>\<open>data\<close> itself may be \<^verbatim>\<open>undefined\<close> or \<^verbatim>\<open>null\<close>
  (\<open>None\<close>). The options may be a falsy value, a truthy value that is not an object, or
  an object whose two members are absent, not functions, or functions.
\<close>

datatype 'a js_field = Absent | NotArray | Array "'a list"

record data =
  sellers :: "seller js_field"
  products :: "product js_field"
  purchase_records :: "purchase_record js_field"

type_synonym revenue_fn = "line_item \<Rightarrow> product \<Rightarrow> rat"
type_synonym bonus_fn = "int \<Rightarrow> int \<Rightarrow> stats \<Rightarrow> rat"

datatype 'f js_member = Undefined | NonFunction | Function 'f

datatype options =
    OptFalsy
  | OptNonObject
  | OptObject (calculateRevenue: "revenue_fn js_member") (calculateBonus: "bonus_fn js_member")

text \<open>
  The three \<^verbatim>\<open>throw new Error(...)\<close> sites, in the order of the source. The
  specification calls the first one InvalidInputError and the other two
  InvalidStrategyError.
\<close>

datatype error = InvalidData | OptionsNotObject | OptionsMissingFunctions

definition is_InvalidInputError :: "error + 'a \<Rightarrow> bool" where
  "is_InvalidInputError r = (r = Inl InvalidData)"

definition is_InvalidStrategyError :: "error + 'a \<Rightarrow> bool" where
  "is_InvalidStrategyError r = (r = Inl OptionsNotObject \<or> r = Inl OptionsMissingFunctions)"

section \<open>Library functions of the language\<close>

text \<open>
  \<^verbatim>\<open>+num.toFixed(2)\<close>: the integer \<open>n\<close> for which \<open>n / 100\<close> is closest to the
  magnitude of the number, the larger one at a tie, with the sign put back. (From
  \<open>10^21\<close> on \<^verbatim>\<open>toFixed\<close> prints the number itself; every double that large is an
  integer, so that rounding to two decimals leaves it unchanged as well.)
\<close>

definition round2 :: "rat \<Rightarrow> rat" where
  "round2 num = (if num < 0 then - (of_int \<lfloor>(- num) * 100 + 1 / 2\<rfloor> / 100)
                 else of_int \<lfloor>num * 100 + 1 / 2\<rfloor> / 100)"

text \<open>\<^verbatim>\<open>Array.isArray(x)\<close>, \<^verbatim>\<open>x.length\<close> and the elements of \<^verbatim>\<open>x\<close>.\<close>

fun isArray :: "'a js_field \<Rightarrow> bool" where
  "isArray (Array xs) = True"
| "isArray _ = False"

fun elems :: "'a js_field \<Rightarrow> 'a list" where
  "elems (Array xs) = xs"
| "elems _ = []"

fun isFunction :: "'f js_member \<Rightarrow> bool" where
  "isFunction (Function f) = True"
| "isFunction _ = False"

text \<open>\<^verbatim>\<open>Object.fromEntries\<close>: the entries are stored in order, a later one overwrites.\<close>

definition fromEntries :: "('k \<times> 'v) list \<Rightarrow> ('k \<rightharpoonup> 'v)" where
  "fromEntries kvs = fold (\<lambda>(k, v) m. m(k \<mapsto> v)) kvs Map.empty"

text \<open>
  \<^verbatim>\<open>Object.entries\<close> of an object whose own properties were created in the order of the
  association list: the keys that are array indices first, in ascending numeric order,
  then the other keys in creation order.
\<close>

definition digit_val :: "char \<Rightarrow> int" where
  "digit_val c = of_char c - 48"

definition index_val :: "string \<Rightarrow> int" where
  "index_val s = fold (\<lambda>c n. 10 * n + digit_val c) s 0"

definition is_array_index :: "string \<Rightarrow> bool" where
  "is_array_index s =
     (s \<noteq> [] \<and> list_all (\<lambda>c. c \<in> set ''0123456789'') s
      \<and> (hd s = CHR ''0'' \<longrightarrow> length s = 1) \<and> index_val s < 2 ^ 32 - 1)"

definition entries :: "(string \<times> 'v) list \<Rightarrow> (string \<times> 'v) list" where
  "entries obj = sort_key (\<lambda>(k, v). index_val k) (filter (\<lambda>(k, v). is_array_index k) obj)
                 @ filter (\<lambda>(k, v). \<not> is_array_index k) obj"

text \<open>
  Unary plus on an array of objects: the array is joined to a string, which is empty for
  the empty array (the number 0) and not numeric otherwise.
\<close>

definition unary_plus_array :: "(string \<times> rat) list \<Rightarrow> js_number" where
  "unary_plus_array xs = (if xs = [] then Num 0 else NaN)"

section \<open>The two strategy functions\<close>

definition calculateSimpleRevenue :: "line_item \<Rightarrow> product \<Rightarrow> rat" where
  "calculateSimpleRevenue purchase product0 =
     (let discountDecimal = discount purchase / 100;
          fullPrice = sale_price purchase * quantity purchase
      in fullPrice * (1 - discountDecimal))"

definition calculateBonusByProfit :: "int \<Rightarrow> int \<Rightarrow> 'a stats_scheme \<Rightarrow> rat" where
  "calculateBonusByProfit index total' seller =
     (if index = 0 then profit seller * (15 / 100)
      else if index = 1 \<or> index = 2 then profit seller * (10 / 100)
      else if index = total' - 1 then 0
      else profit seller * (5 / 100))"

definition default_options :: options where
  "default_options = OptObject (Function calculateSimpleRevenue) (Function calculateBonusByProfit)"

section \<open>The analyser\<close>

subsection \<open>Validation (the same in both files)\<close>

definition invalid_data :: "data option \<Rightarrow> bool" where
  "invalid_data d = (case d of None \<Rightarrow> True
     | Some dt \<Rightarrow> \<not> isArray (sellers dt) \<or> length (elems (sellers dt)) = 0
         \<or> \<not> isArray (products dt) \<or> length (elems (products dt)) = 0
         \<or> \<not> isArray (purchase_records dt) \<or> length (elems (purchase_records dt)) = 0)"

text \<open>
  \<^verbatim>\<open>!options || typeof options !== "object"\<close>, then the test of the two members.
  \<^verbatim>\<open>src/main.js\<close> tests \<^verbatim>\<open>!calculateRevenue || !calculateBonus\<close> before the two
  \<^verbatim>\<open>typeof\<close> tests; a function is never falsy, so the conditions are the same.
\<close>

fun options_not_object :: "options \<Rightarrow> bool" where
  "options_not_object (OptObject r b) = False"
| "options_not_object _ = True"

fun options_missing_functions :: "options \<Rightarrow> bool" where
  "options_missing_functions (OptObject r b) = (\<not> isFunction r \<or> \<not> isFunction b)"
| "options_missing_functions _ = True"

subsection \<open>Preparation and indexing (the same in both files)\<close>

definition init_stats :: "seller list \<Rightarrow> stats list" where
  "init_stats ss = map (\<lambda>s. \<lparr>a_id = s_id s, a_name = first_name s @ '' '' @ last_name s,
                             revenue = 0, profit = 0, sales_count = 0, products_sold = []\<rparr>) ss"

text \<open>
  \<^verbatim>\<open>sellerIndex\<close> maps an identifier to a reference to an element of \<^verbatim>\<open>sellerStats\<close>;
  the reference is modelled by the position of the element in the array (before sorting).
\<close>

definition sellerIndex :: "stats list \<Rightarrow> (string \<rightharpoonup> nat)" where
  "sellerIndex sellerStats = fromEntries (map (\<lambda>i. (a_id (sellerStats ! i), i)) [0..<length sellerStats])"

definition productIndex :: "product list \<Rightarrow> (string \<rightharpoonup> product)" where
  "productIndex ps = fromEntries (map (\<lambda>p. (sku p, p)) ps)"

subsection \<open>Accumulation in \<^verbatim>\<open>part_000\<close>\<close>

definition sold_part :: "string \<Rightarrow> rat \<Rightarrow> (string \<times> rat) list \<Rightarrow> (string \<times> rat) list" where
  "sold_part k q obj =
     AList.update k ((case map_of obj k of None \<Rightarrow> 0 | Some v \<Rightarrow> if v = 0 then 0 else v) + q) obj"

definition item_step_part ::
  "revenue_fn \<Rightarrow> (string \<rightharpoonup> product) \<Rightarrow> line_item \<Rightarrow> stats \<times> rat \<Rightarrow> stats \<times> rat" where
  "item_step_part calcRevenue pIndex item st =
     (case pIndex (i_sku item) of None \<Rightarrow> st
      | Some product \<Rightarrow>
          (let seller = fst st; recordRevenue = snd st;
               cost = purchase_price product * quantity item;
               revenue_i = calcRevenue item product;
               profit_i = revenue_i - cost
           in (seller\<lparr>profit := round2 (profit seller + profit_i),
                       products_sold := sold_part (i_sku item) (quantity item) (products_sold seller)\<rparr>,
               round2 (recordRevenue + revenue_i))))"

definition record_step_part ::
  "revenue_fn \<Rightarrow> (string \<rightharpoonup> product) \<Rightarrow> (string \<rightharpoonup> nat) \<Rightarrow> purchase_record \<Rightarrow> stats list \<Rightarrow> stats list" where
  "record_step_part calcRevenue pIndex sIndex record sellerStats =
     (case sIndex (seller_id record) of None \<Rightarrow> sellerStats
      | Some i \<Rightarrow>
          (let seller = (sellerStats ! i)\<lparr>sales_count := sales_count (sellerStats ! i) + 1\<rparr>;
               st = fold (item_step_part calcRevenue pIndex) (items record) (seller, 0);
               seller' = fst st; recordRevenue = snd st
           in sellerStats[i := seller'\<lparr>revenue := round2 (revenue seller' + recordRevenue)\<rparr>]))"

definition accumulate_part ::
  "revenue_fn \<Rightarrow> product list \<Rightarrow> purchase_record list \<Rightarrow> stats list \<Rightarrow> stats list" where
  "accumulate_part calcRevenue ps rs sellerStats =
     fold (record_step_part calcRevenue (productIndex ps) (sellerIndex sellerStats)) rs sellerStats"

subsection \<open>Accumulation in \<^verbatim>\<open>src/main.js\<close>\<close>

definition sold_main :: "string \<Rightarrow> rat \<Rightarrow> (string \<times> rat) list \<Rightarrow> (string \<times> rat) list" where
  "sold_main k q obj =
     (let obj1 = (case map_of obj k of None \<Rightarrow> AList.update k 0 obj
                  | Some v \<Rightarrow> if v = 0 then AList.update k 0 obj else obj)
      in AList.update k ((case map_of obj1 k of None \<Rightarrow> 0 | Some v \<Rightarrow> v) + q) obj1)"

definition item_step_main ::
  "revenue_fn \<Rightarrow> (string \<rightharpoonup> product) \<Rightarrow> line_item \<Rightarrow> stats \<times> rat \<Rightarrow> stats \<times> rat" where
  "item_step_main calcRevenue pIndex item st =
     (case pIndex (i_sku item) of None \<Rightarrow> st
      | Some product \<Rightarrow>
          (let seller = fst st; recordRevenue = snd st;
               cost = purchase_price product * quantity item;
               revenue_i = calcRevenue item product;
               profit_i = revenue_i - cost
           in (seller\<lparr>profit := profit seller + profit_i,
                       products_sold := sold_main (i_sku item) (quantity item) (products_sold seller)\<rparr>,
               recordRevenue + round2 revenue_i)))"

definition record_step_main ::
  "revenue_fn \<Rightarrow> (string \<rightharpoonup> product) \<Rightarrow> (string \<rightharpoonup> nat) \<Rightarrow> purchase_record \<Rightarrow> stats list \<Rightarrow> stats list" where
  "record_step_main calcRevenue pIndex sIndex record sellerStats =
     (case sIndex (seller_id record) of None \<Rightarrow> sellerStats
      | Some i \<Rightarrow>
          (let seller = (sellerStats ! i)\<lparr>sales_count := sales_count (sellerStats ! i) + 1\<rparr>;
               st = fold (item_step_main calcRevenue pIndex) (items record) (seller, 0);
               seller' = fst st; recordRevenue = snd st
           in sellerStats[i := seller'\<lparr>revenue := revenue seller' + recordRevenue\<rparr>]))"

definition accumulate_main ::
  "revenue_fn \<Rightarrow> product list \<Rightarrow> purchase_record list \<Rightarrow> stats list \<Rightarrow> stats list" where
  "accumulate_main calcRevenue ps rs sellerStats =
     fold (record_step_main calcRevenue (productIndex ps) (sellerIndex sellerStats)) rs sellerStats"

subsection \<open>Ranking, bonus, top products and the report\<close>

text \<open>
  \<^verbatim>\<open>sort((a, b) => b.profit - a.profit)\<close>: the sort of the language is stable, as
  \<open>sort_key\<close> is; descending order is ascending order of the negated key.
\<close>

definition sort_by_profit :: "stats list \<Rightarrow> stats list" where
  "sort_by_profit sellerStats = sort_key (\<lambda>s. - profit s) sellerStats"

definition top_of :: "(string \<times> rat) list \<Rightarrow> (string \<times> rat) list" where
  "top_of sold = take 10 (sort_key (\<lambda>(k, q). - q) (entries sold))"

definition rank_part :: "bonus_fn \<Rightarrow> stats list \<Rightarrow> ranked list" where
  "rank_part calcBonus ranking =
     map (\<lambda>index. let seller = ranking ! index in
            stats.extend seller
              \<lparr>bonus = round2 (calcBonus (int index) (int (length ranking)) seller),
               top_products = top_of (products_sold seller)\<rparr>)
         [0..<length ranking]"

definition rank_main :: "bonus_fn \<Rightarrow> stats list \<Rightarrow> ranked list" where
  "rank_main calcBonus ranking =
     map (\<lambda>index. let seller = ranking ! index in
            stats.extend seller
              \<lparr>bonus = calcBonus (int index) (int (length ranking)) seller,
               top_products = top_of (products_sold seller)\<rparr>)
         [0..<length ranking]"

definition report_part :: "ranked \<Rightarrow> report" where
  "report_part seller =
     \<lparr>r_seller_id = a_id seller, r_name = a_name seller,
      r_revenue = round2 (revenue seller), r_profit = round2 (profit seller),
      r_sales_count = sales_count seller,
      r_top_products = JsArray (top_products seller),
      r_bonus = round2 (bonus seller)\<rparr>"

definition report_main :: "ranked \<Rightarrow> report" where
  "report_main seller =
     \<lparr>r_seller_id = a_id seller, r_name = a_name seller,
      r_revenue = round2 (revenue seller), r_profit = round2 (profit seller),
      r_sales_count = sales_count seller,
      r_top_products = JsNumber (unary_plus_array (top_products seller)),
      r_bonus = round2 (bonus seller)\<rparr>"

definition analyzeSalesData_part :: "data option \<Rightarrow> options \<Rightarrow> error + report list" where
  "analyzeSalesData_part dat opts =
     (if invalid_data dat then Inl InvalidData
      else if options_not_object opts then Inl OptionsNotObject
      else if options_missing_functions opts then Inl OptionsMissingFunctions
      else (case (dat, calculateRevenue opts, calculateBonus opts) of
              (Some d, Function calcRevenue, Function calcBonus) \<Rightarrow>
                 Inr (map report_part (rank_part calcBonus (sort_by_profit
                        (accumulate_part calcRevenue (elems (products d)) (elems (purchase_records d))
                           (init_stats (elems (sellers d)))))))
            | _ \<Rightarrow> Inl OptionsMissingFunctions))"

definition analyzeSalesData_main :: "data option \<Rightarrow> options \<Rightarrow> error + report list" where
  "analyzeSalesData_main dat opts =
     (if invalid_data dat then Inl InvalidData
      else if options_not_object opts then Inl OptionsNotObject
      else if options_missing_functions opts then Inl OptionsMissingFunctions
      else (case (dat, calculateRevenue opts, calculateBonus opts) of
              (Some d, Function calcRevenue, Function calcBonus) \<Rightarrow>
                 Inr (map report_main (rank_main calcBonus (sort_by_profit
                        (accumulate_main calcRevenue (elems (products d)) (elems (purchase_records d))
                           (init_stats (elems (sellers d)))))))
            | _ \<Rightarrow> Inl OptionsMissingFunctions))"

section \<open>Keys that name members of \<^verbatim>\<open>Object.prototype\<close>\<close>

text \<open>
  \<^verbatim>\<open>sellerIndex\<close> and \<^verbatim>\<open>productIndex\<close> are created by \<^verbatim>\<open>Object.fromEntries\<close> and every
  \<^verbatim>\<open>products_sold\<close> by the literal \<^verbatim>\<open>{}\<close>: plain objects, whose prototype is
  \<^verbatim>\<open>Object.prototype\<close>. The lookup \<^verbatim>\<open>obj[key]\<close> yields the own property of that name
  if there is one, else the member of \<^verbatim>\<open>Object.prototype\<close> of that name if there is one,
  else \<^verbatim>\<open>undefined\<close>. The members are the twelve below; eleven are functions and
  \<^verbatim>\<open>__proto__\<close> yields \<^verbatim>\<open>Object.prototype\<close> itself, so that each of them is truthy.
\<close>

definition object_prototype_keys :: "string list" where
  "object_prototype_keys =
     [''constructor'', ''__defineGetter__'', ''__defineSetter__'', ''hasOwnProperty'',
      ''__lookupGetter__'', ''__lookupSetter__'', ''isPrototypeOf'', ''propertyIsEnumerable'',
      ''toString'', ''valueOf'', ''__proto__'', ''toLocaleString'']"

datatype 'v js_lookup = Own 'v | Inherited | Missing

definition js_get :: "(string \<rightharpoonup> 'v) \<Rightarrow> string \<Rightarrow> 'v js_lookup" where
  "js_get obj k = (case obj k of Some v \<Rightarrow> Own v
                   | None \<Rightarrow> if k \<in> set object_prototype_keys then Inherited else Missing)"

text \<open>
  What one purchase record does with such a key, in both files (the statements involved
  are the same: \<^verbatim>\<open>if (!seller) return\<close>, \<^verbatim>\<open>if (!product) return\<close>, the call of
  \<^verbatim>\<open>calculateRevenue\<close> and the access \<^verbatim>\<open>seller.products_sold[item.sku]\<close>).

  \<^item> The seller lookup is \<^verbatim>\<open>undefined\<close>: the record is skipped.

  \<^item> The seller lookup finds an inherited member. The record is not skipped;
    \<^verbatim>\<open>sales_count\<close>, \<^verbatim>\<open>profit\<close> and \<^verbatim>\<open>revenue\<close> are written to the inherited member,
    which is no accumulator. The line items whose product lookup is \<^verbatim>\<open>undefined\<close> are
    skipped. At the first other line item, if the product is one of the catalogue, the
    revenue function is called as for any item and then \<^verbatim>\<open>seller.products_sold\<close> is
    \<^verbatim>\<open>undefined\<close>: reading \<^verbatim>\<open>[item.sku]\<close> of it throws a \<^verbatim>\<open>TypeError\<close>, which ends the
    call. If the product is an inherited member, the revenue function is called with a
    value that is no product. Without such a line item no accumulator changes.

  \<^item> The seller lookup finds an accumulator and the SKU of a line item is one of the
    twelve names. The product lookup is truthy, so the item is processed. If the product
    is an inherited member, the revenue function is called with it,
    \<^verbatim>\<open>product.purchase_price\<close> is \<^verbatim>\<open>undefined\<close>, and cost and profit are \<^verbatim>\<open>NaN\<close>. In either
    case \<^verbatim>\<open>seller.products_sold[item.sku]\<close> finds an inherited member, to which the
    quantity is appended as to a string, and an assignment to \<^verbatim>\<open>__proto__\<close> is dropped.

  \<^item> Otherwise the record is processed as \<open>record_step_part\<close> and \<open>record_step_main\<close>
    say.

  Where a value that is not of the type the embedding gives it enters the computation
  (\<open>UntypedValue\<close>), the embedding says nothing about the rest of the call.
\<close>

datatype effect = Typed | UntypedValue | TypeErrorRaised

definition record_effect ::
  "(string \<rightharpoonup> nat) \<Rightarrow> (string \<rightharpoonup> product) \<Rightarrow> purchase_record \<Rightarrow> effect" where
  "record_effect sIndex pIndex record =
     (case js_get sIndex (seller_id record) of
        Missing \<Rightarrow> Typed
      | Inherited \<Rightarrow>
          (case find (\<lambda>item. js_get pIndex (i_sku item) \<noteq> Missing) (items record) of
             None \<Rightarrow> Typed
           | Some item \<Rightarrow>
               (case js_get pIndex (i_sku item) of
                  Own product \<Rightarrow> TypeErrorRaised
                | _ \<Rightarrow> UntypedValue))
      | Own i \<Rightarrow>
          if list_ex (\<lambda>item. i_sku item \<in> set object_prototype_keys) (items record)
          then UntypedValue else Typed)"

text \<open>
  The records are processed in order: the first one that is not processed as the typed
  embedding says decides.
\<close>

definition inherited_effect :: "data option \<Rightarrow> effect" where
  "inherited_effect dat =
     (case dat of None \<Rightarrow> Typed
      | Some d \<Rightarrow>
          (case find (\<lambda>e. e \<noteq> Typed)
                  (map (record_effect (sellerIndex (init_stats (elems (sellers d))))
                                      (productIndex (elems (products d))))
                       (elems (purchase_records d))) of
             None \<Rightarrow> Typed
           | Some e \<Rightarrow> e))"

text \<open>
  The outcome of a call: one of the three errors of validation, a \<^verbatim>\<open>TypeError\<close>, a
  computation that leaves the typed embedding (with the default strategies the call
  then returns a report that holds \<^verbatim>\<open>NaN\<close> or a tally that is a string, or ends with
  the \<^verbatim>\<open>TypeError\<close> of a later record), or a report.
\<close>

datatype js_outcome = Throws error | ThrowsTypeError | OutsideTypes | Returns "report list"

definition analyzeSalesData_part_js :: "data option \<Rightarrow> options \<Rightarrow> js_outcome" where
  "analyzeSalesData_part_js dat opts =
     (case analyzeSalesData_part dat opts of
        Inl e \<Rightarrow> Throws e
      | Inr reports \<Rightarrow>
          (case inherited_effect dat of
             TypeErrorRaised \<Rightarrow> ThrowsTypeError
           | UntypedValue \<Rightarrow> OutsideTypes
           | Typed \<Rightarrow> Returns reports))"

definition analyzeSalesData_main_js :: "data option \<Rightarrow> options \<Rightarrow> js_outcome" where
  "analyzeSalesData_main_js dat opts =
     (case analyzeSalesData_main dat opts of
        Inl e \<Rightarrow> Throws e
      | Inr reports \<Rightarrow>
          (case inherited_effect dat of
             TypeErrorRaised \<Rightarrow> ThrowsTypeError
           | UntypedValue \<Rightarrow> OutsideTypes
           | Typed \<Rightarrow> Returns reports))"

text \<open>
  The inputs on which the typed embedding is the whole story: no purchase record and no
  line item carries one of the twelve names.
\<close>

definition plain_items :: "line_item list \<Rightarrow> bool" where
  "plain_items its = list_all (\<lambda>item. i_sku item \<notin> set object_prototype_keys) its"

definition plain_keys :: "purchase_record list \<Rightarrow> bool" where
  "plain_keys rs =
     list_all (\<lambda>record. seller_id record \<notin> set object_prototype_keys \<and> plain_items (items record)) rs"

section \<open>The analyser on an explicit store\<close>

text \<open>
  The analyser updates objects in place: the accumulators, found through
  \<^verbatim>\<open>sellerIndex\<close>, and the array \<^verbatim>\<open>sellerStats\<close>, which it sorts. Whether such an
  update can reach the caller's data depends on which objects are shared, so the
  analyser is embedded a second time over a store. The store is a list of cells, an
  address is a position in it, a new object is appended. The input objects are cells
  that hold references to each other; \<^verbatim>\<open>productIndex\<close> holds references to the
  product objects of the data, \<^verbatim>\<open>sellerIndex\<close> and \<^verbatim>\<open>sellerStats\<close> hold
  references to the accumulators. The object \<^verbatim>\<open>products_sold\<close> and the array
  \<^verbatim>\<open>top_products\<close> are created with their accumulator and are kept inside its cell.

  A reference that does not lead to a cell of the expected kind is outside the typed
  data model; the store functions skip such an element.
\<close>

type_synonym addr = nat

datatype js_ref = RefUndefined | RefOther | Ref addr

datatype cell =
    DataCell js_ref js_ref js_ref
  | ArrayCell "addr list"
  | SellerCell seller
  | ProductCell product
  | RecordCell string addr
  | ItemCell line_item
  | StatsCell stats
  | RankedCell ranked
  | ReportCell report

type_synonym store = "cell list"

datatype outcome = Thrown error | Returned addr

text \<open>
  The two files have the same statements apart from six expressions; the store embedding
  is written once, over a record of these expressions.
\<close>

record variant =
  add_profit :: "rat \<Rightarrow> rat \<Rightarrow> rat"
  add_subtotal :: "rat \<Rightarrow> rat \<Rightarrow> rat"
  add_revenue :: "rat \<Rightarrow> rat \<Rightarrow> rat"
  add_sold :: "string \<Rightarrow> rat \<Rightarrow> (string \<times> rat) list \<Rightarrow> (string \<times> rat) list"
  bonus_value :: "rat \<Rightarrow> rat"
  top_value :: "(string \<times> rat) list \<Rightarrow> js_value"

definition variant_part :: variant where
  "variant_part =
     \<lparr>add_profit = (\<lambda>total p. round2 (total + p)),
      add_subtotal = (\<lambda>sub r. round2 (sub + r)),
      add_revenue = (\<lambda>total sub. round2 (total + sub)),
      add_sold = sold_part,
      bonus_value = round2,
      top_value = JsArray\<rparr>"

definition variant_main :: variant where
  "variant_main =
     \<lparr>add_profit = (\<lambda>total p. total + p),
      add_subtotal = (\<lambda>sub r. sub + round2 r),
      add_revenue = (\<lambda>total sub. total + sub),
      add_sold = sold_main,
      bonus_value = (\<lambda>b. b),
      top_value = (\<lambda>l. JsNumber (unary_plus_array l))\<rparr>"

text \<open>Reading a cell, an array, a property of \<^verbatim>\<open>data\<close>.\<close>

definition rd :: "store \<Rightarrow> addr \<Rightarrow> cell option" where
  "rd h a = (if a < length h then Some (h ! a) else None)"

definition array_at :: "store \<Rightarrow> addr \<Rightarrow> addr list option" where
  "array_at h a = (case rd h a of Some (ArrayCell xs) \<Rightarrow> Some xs | _ \<Rightarrow> None)"

definition isArray_ref :: "store \<Rightarrow> js_ref \<Rightarrow> bool" where
  "isArray_ref h r = (case r of Ref a \<Rightarrow> array_at h a \<noteq> None | _ \<Rightarrow> False)"

definition elems_ref :: "store \<Rightarrow> js_ref \<Rightarrow> addr list" where
  "elems_ref h r = (case r of Ref a \<Rightarrow> (case array_at h a of Some xs \<Rightarrow> xs | None \<Rightarrow> []) | _ \<Rightarrow> [])"

text \<open>
  \<^verbatim>\<open>data\<close> is falsy (\<open>None\<close>) or a reference; a property read from something that
  is not a data object is \<^verbatim>\<open>undefined\<close>.
\<close>

definition data_fields :: "store \<Rightarrow> addr option \<Rightarrow> (js_ref \<times> js_ref \<times> js_ref) option" where
  "data_fields h d = (case d of None \<Rightarrow> None
     | Some a \<Rightarrow> (case rd h a of Some (DataCell s p r) \<Rightarrow> Some (s, p, r)
                  | _ \<Rightarrow> Some (RefUndefined, RefUndefined, RefUndefined)))"

definition invalid_data_store :: "store \<Rightarrow> addr option \<Rightarrow> bool" where
  "invalid_data_store h d = (case data_fields h d of None \<Rightarrow> True
     | Some (s, p, r) \<Rightarrow> \<not> isArray_ref h s \<or> length (elems_ref h s) = 0
         \<or> \<not> isArray_ref h p \<or> length (elems_ref h p) = 0
         \<or> \<not> isArray_ref h r \<or> length (elems_ref h r) = 0)"

definition sellers_at :: "store \<Rightarrow> addr list \<Rightarrow> seller list" where
  "sellers_at h as = List.map_filter (\<lambda>a. case rd h a of Some (SellerCell s) \<Rightarrow> Some s | _ \<Rightarrow> None) as"

definition stats_at :: "store \<Rightarrow> addr \<Rightarrow> stats option" where
  "stats_at h a = (case rd h a of Some (StatsCell s) \<Rightarrow> Some s | _ \<Rightarrow> None)"

text \<open>An assignment to a property of the accumulator at address \<open>a\<close>.\<close>

definition update_stats :: "addr \<Rightarrow> (stats \<Rightarrow> stats) \<Rightarrow> store \<Rightarrow> store" where
  "update_stats a f h = (case stats_at h a of Some s \<Rightarrow> h[a := StatsCell (f s)] | None \<Rightarrow> h)"

definition sellerIndex_store :: "store \<Rightarrow> addr list \<Rightarrow> (string \<rightharpoonup> addr)" where
  "sellerIndex_store h as =
     fromEntries (List.map_filter (\<lambda>a. case stats_at h a of Some s \<Rightarrow> Some (a_id s, a) | None \<Rightarrow> None) as)"

definition productIndex_store :: "store \<Rightarrow> addr list \<Rightarrow> (string \<rightharpoonup> addr)" where
  "productIndex_store h as =
     fromEntries (List.map_filter (\<lambda>a. case rd h a of Some (ProductCell p) \<Rightarrow> Some (sku p, a) | _ \<Rightarrow> None) as)"

definition item_step_store ::
  "variant \<Rightarrow> revenue_fn \<Rightarrow> (string \<rightharpoonup> addr) \<Rightarrow> addr \<Rightarrow> addr \<Rightarrow> store \<times> rat \<Rightarrow> store \<times> rat" where
  "item_step_store v calcRevenue pIndex seller item_ref st =
     (case rd (fst st) item_ref of
        Some (ItemCell item) \<Rightarrow>
          (case pIndex (i_sku item) of None \<Rightarrow> st
           | Some product_ref \<Rightarrow>
               (case rd (fst st) product_ref of
                  Some (ProductCell product) \<Rightarrow>
                    (let cost = purchase_price product * quantity item;
                         revenue_i = calcRevenue item product;
                         profit_i = revenue_i - cost
                     in (update_stats seller
                           (\<lambda>s. s\<lparr>profit := add_profit v (profit s) profit_i,
                                   products_sold := add_sold v (i_sku item) (quantity item) (products_sold s)\<rparr>)
                           (fst st),
                         add_subtotal v (snd st) revenue_i))
                | _ \<Rightarrow> st))
      | _ \<Rightarrow> st)"

definition record_step_store ::
  "variant \<Rightarrow> revenue_fn \<Rightarrow> (string \<rightharpoonup> addr) \<Rightarrow> (string \<rightharpoonup> addr) \<Rightarrow> addr \<Rightarrow> store \<Rightarrow> store" where
  "record_step_store v calcRevenue pIndex sIndex record_ref h =
     (case rd h record_ref of
        Some (RecordCell sid items_ref) \<Rightarrow>
          (case sIndex sid of None \<Rightarrow> h
           | Some seller \<Rightarrow>
               (let h1 = update_stats seller (\<lambda>s. s\<lparr>sales_count := sales_count s + 1\<rparr>) h;
                    st = fold (item_step_store v calcRevenue pIndex seller)
                           (case array_at h1 items_ref of Some xs \<Rightarrow> xs | None \<Rightarrow> []) (h1, 0)
                in update_stats seller
                     (\<lambda>s. s\<lparr>revenue := add_revenue v (revenue s) (snd st)\<rparr>) (fst st)))
      | _ \<Rightarrow> h)"

definition profit_at :: "store \<Rightarrow> addr \<Rightarrow> rat" where
  "profit_at h a = (case stats_at h a of Some s \<Rightarrow> profit s | None \<Rightarrow> 0)"

text \<open>\<^verbatim>\<open>sellerStats.sort(...)\<close> sorts the array in place.\<close>

definition sort_store :: "addr \<Rightarrow> store \<Rightarrow> store" where
  "sort_store arr h = (case array_at h arr of
       Some xs \<Rightarrow> h[arr := ArrayCell (sort_key (\<lambda>a. - profit_at h a) xs)]
     | None \<Rightarrow> h)"

text \<open>
  The callback of the second \<^verbatim>\<open>forEach\<close> adds \<^verbatim>\<open>bonus\<close> and
  \<^verbatim>\<open>top_products\<close> to the accumulator; the final \<^verbatim>\<open>map\<close> creates the reports and
  their array.
\<close>

definition rank_step_store :: "variant \<Rightarrow> bonus_fn \<Rightarrow> addr list \<Rightarrow> nat \<Rightarrow> store \<Rightarrow> store" where
  "rank_step_store v calcBonus ranking index h =
     (case stats_at h (ranking ! index) of
        Some seller \<Rightarrow>
          h[ranking ! index := RankedCell (stats.extend seller
              \<lparr>bonus = bonus_value v (calcBonus (int index) (int (length ranking)) seller),
               top_products = top_of (products_sold seller)\<rparr>)]
      | None \<Rightarrow> h)"

definition report_of :: "variant \<Rightarrow> ranked \<Rightarrow> report" where
  "report_of v seller =
     \<lparr>r_seller_id = a_id seller, r_name = a_name seller,
      r_revenue = round2 (revenue seller), r_profit = round2 (profit seller),
      r_sales_count = sales_count seller,
      r_top_products = top_value v (top_products seller),
      r_bonus = round2 (bonus seller)\<rparr>"

definition reports_at :: "variant \<Rightarrow> store \<Rightarrow> addr list \<Rightarrow> report list" where
  "reports_at v h as =
     List.map_filter (\<lambda>a. case rd h a of Some (RankedCell s) \<Rightarrow> Some (report_of v s) | _ \<Rightarrow> None) as"

definition analyzeSalesData_store ::
  "variant \<Rightarrow> store \<Rightarrow> addr option \<Rightarrow> options \<Rightarrow> outcome \<times> store" where
  "analyzeSalesData_store v h dat opts =
     (if invalid_data_store h dat then (Thrown InvalidData, h)
      else if options_not_object opts then (Thrown OptionsNotObject, h)
      else if options_missing_functions opts then (Thrown OptionsMissingFunctions, h)
      else (case (data_fields h dat, calculateRevenue opts, calculateBonus opts) of
              (Some (s, p, r), Function calcRevenue, Function calcBonus) \<Rightarrow>
                (let fresh = init_stats (sellers_at h (elems_ref h s));
                     stat_refs = [length h ..< length h + length fresh];
                     sellerStats = length h + length fresh;
                     h1 = h @ map StatsCell fresh @ [ArrayCell stat_refs];
                     sIndex = sellerIndex_store h1 stat_refs;
                     pIndex = productIndex_store h1 (elems_ref h1 p);
                     h2 = fold (record_step_store v calcRevenue pIndex sIndex) (elems_ref h1 r) h1;
                     h3 = sort_store sellerStats h2;
                     ranking = (case array_at h3 sellerStats of Some xs \<Rightarrow> xs | None \<Rightarrow> []);
                     h4 = fold (rank_step_store v calcBonus ranking) [0..<length ranking] h3;
                     reports = reports_at v h4 ranking;
                     report_refs = [length h4 ..< length h4 + length reports];
                     h5 = h4 @ map ReportCell reports @ [ArrayCell report_refs]
                 in (Returned (length h4 + length reports), h5))
            | _ \<Rightarrow> (Thrown OptionsMissingFunctions, h)))"

text \<open>
  Reading the typed data back from a store: the value that the cells reachable from an
  address represent, if they have the declared shape.
\<close>

fun read_all :: "('a \<Rightarrow> 'b option) \<Rightarrow> 'a list \<Rightarrow> 'b list option" where
  "read_all f [] = Some []"
| "read_all f (a # as) =
     (case f a of None \<Rightarrow> None
      | Some x \<Rightarrow> (case read_all f as of None \<Rightarrow> None | Some xs \<Rightarrow> Some (x # xs)))"

definition read_seller :: "store \<Rightarrow> addr \<Rightarrow> seller option" where
  "read_seller h a = (case rd h a of Some (SellerCell s) \<Rightarrow> Some s | _ \<Rightarrow> None)"

definition read_product :: "store \<Rightarrow> addr \<Rightarrow> product option" where
  "read_product h a = (case rd h a of Some (ProductCell p) \<Rightarrow> Some p | _ \<Rightarrow> None)"

definition read_item :: "store \<Rightarrow> addr \<Rightarrow> line_item option" where
  "read_item h a = (case rd h a of Some (ItemCell i) \<Rightarrow> Some i | _ \<Rightarrow> None)"

definition read_record :: "store \<Rightarrow> addr \<Rightarrow> purchase_record option" where
  "read_record h a =
     (case rd h a of
        Some (RecordCell sid items_ref) \<Rightarrow>
          (case array_at h items_ref of None \<Rightarrow> None
           | Some irefs \<Rightarrow>
               (case read_all (read_item h) irefs of None \<Rightarrow> None
                | Some its \<Rightarrow> Some \<lparr>seller_id = sid, items = its\<rparr>))
      | _ \<Rightarrow> None)"

definition read_field :: "store \<Rightarrow> (store \<Rightarrow> addr \<Rightarrow> 'a option) \<Rightarrow> js_ref \<Rightarrow> 'a js_field option" where
  "read_field h rd_elem r =
     (case r of RefUndefined \<Rightarrow> Some Absent
      | RefOther \<Rightarrow> Some NotArray
      | Ref a \<Rightarrow> (case array_at h a of None \<Rightarrow> Some NotArray
                   | Some as \<Rightarrow> (case read_all (rd_elem h) as of None \<Rightarrow> None
                                  | Some xs \<Rightarrow> Some (Array xs))))"

definition read_data :: "store \<Rightarrow> addr \<Rightarrow> data option" where
  "read_data h a =
     (case rd h a of
        Some (DataCell s p r) \<Rightarrow>
          (case (read_field h read_seller s, read_field h read_product p,
                 read_field h read_record r) of
             (Some fs, Some fp, Some fr) \<Rightarrow>
               Some \<lparr>sellers = fs, products = fp, purchase_records = fr\<rparr>
           | _ \<Rightarrow> None)
      | _ \<Rightarrow> None)"

text \<open>The result of a call: the error thrown, or the reports in the returned array.\<close>

definition read_report :: "store \<Rightarrow> addr \<Rightarrow> report option" where
  "read_report h a = (case rd h a of Some (ReportCell r) \<Rightarrow> Some r | _ \<Rightarrow> None)"

fun result_of :: "outcome \<times> store \<Rightarrow> (error + report list) option" where
  "result_of (Thrown e, h) = Some (Inl e)"
| "result_of (Returned a, h) =
     (case array_at h a of None \<Rightarrow> None
      | Some refs \<Rightarrow> (case read_all (read_report h) refs of None \<Rightarrow> None
                       | Some reports \<Rightarrow> Some (Inr reports)))"

text \<open>
  The accumulation and the ranking of the first embedding, written once over the record
  of the six expressions in which the files differ. It is the link between the first
  embedding and the store embedding.
\<close>

definition item_step_v ::
  "variant \<Rightarrow> revenue_fn \<Rightarrow> (string \<rightharpoonup> product) \<Rightarrow> line_item \<Rightarrow> stats \<times> rat \<Rightarrow> stats \<times> rat" where
  "item_step_v v calcRevenue pIndex item st =
     (case pIndex (i_sku item) of None \<Rightarrow> st
      | Some product \<Rightarrow>
          (let cost = purchase_price product * quantity item;
               revenue_i = calcRevenue item product;
               profit_i = revenue_i - cost
           in ((fst st)\<lparr>profit := add_profit v (profit (fst st)) profit_i,
                       products_sold := add_sold v (i_sku item) (quantity item) (products_sold (fst st))\<rparr>,
               add_subtotal v (snd st) revenue_i)))"

definition record_step_v ::
  "variant \<Rightarrow> revenue_fn \<Rightarrow> (string \<rightharpoonup> product) \<Rightarrow> (string \<rightharpoonup> nat) \<Rightarrow> purchase_record \<Rightarrow> stats list \<Rightarrow> stats list" where
  "record_step_v v calcRevenue pIndex sIndex record sellerStats =
     (case sIndex (seller_id record) of None \<Rightarrow> sellerStats
      | Some i \<Rightarrow>
          (let st = fold (item_step_v v calcRevenue pIndex) (items record)
                      ((sellerStats ! i)\<lparr>sales_count := sales_count (sellerStats ! i) + 1\<rparr>, 0)
           in sellerStats[i := (fst st)\<lparr>revenue := add_revenue v (revenue (fst st)) (snd st)\<rparr>]))"

definition rank_v :: "variant \<Rightarrow> bonus_fn \<Rightarrow> stats list \<Rightarrow> ranked list" where
  "rank_v v calcBonus ranking =
     map (\<lambda>index. stats.extend (ranking ! index)
            \<lparr>bonus = bonus_value v (calcBonus (int index) (int (length ranking)) (ranking ! index)),
             top_products = top_of (products_sold (ranking ! index))\<rparr>)
         [0..<length ranking]"

definition reports_v ::
  "variant \<Rightarrow> revenue_fn \<Rightarrow> bonus_fn \<Rightarrow> seller list \<Rightarrow> product list \<Rightarrow> purchase_record list \<Rightarrow> report list" where
  "reports_v v calcRevenue calcBonus ss ps rs =
     map (report_of v) (rank_v v calcBonus (sort_by_profit
       (fold (record_step_v v calcRevenue (productIndex ps) (sellerIndex (init_stats ss))) rs
          (init_stats ss))))"

text \<open>
  The store during accumulation: the old cells, then the accumulators, then the array
  \<^verbatim>\<open>sellerStats\<close>. The positions of the accumulators in the order of the sort.
\<close>

definition with_stats :: "store \<Rightarrow> stats list \<Rightarrow> addr list \<Rightarrow> store" where
  "with_stats h st arr = h @ map StatsCell st @ [ArrayCell arr]"

definition ranking_of :: "stats list \<Rightarrow> nat list" where
  "ranking_of st = sort_key (\<lambda>i. - profit (st ! i)) [0..<length st]"

section \<open>Properties named in the statements\<close>

text \<open>
  A collection is acceptable when it is present, a sequence and not empty; a strategy
  member when it is present and callable. These two predicates follow the wording of the
  specification and are compared with the tests of the source below.
\<close>

fun collection_bad :: "'a js_field \<Rightarrow> bool" where
  "collection_bad Absent = True"
| "collection_bad NotArray = True"
| "collection_bad (Array xs) = (xs = [])"

definition spec_invalid_input :: "data option \<Rightarrow> bool" where
  "spec_invalid_input d = (case d of None \<Rightarrow> True
     | Some dt \<Rightarrow> collection_bad (sellers dt) \<or> collection_bad (products dt)
                 \<or> collection_bad (purchase_records dt))"

fun member_bad :: "'f js_member \<Rightarrow> bool" where
  "member_bad Undefined = True"
| "member_bad NonFunction = True"
| "member_bad (Function f) = False"

fun spec_invalid_strategies :: "options \<Rightarrow> bool" where
  "spec_invalid_strategies OptFalsy = True"
| "spec_invalid_strategies OptNonObject = True"
| "spec_invalid_strategies (OptObject r b) = (member_bad r \<or> member_bad b)"


text \<open>
  What the specification says of the field \<^verbatim>\<open>top_products\<close>, for a seller whose
  tallies are \<open>sold\<close>: a list, the first ten entries at most of the tallies sorted by
  quantity in descending order.
\<close>

definition top_list_of :: "(string \<times> rat) list \<Rightarrow> js_value \<Rightarrow> bool" where
  "top_list_of sold v =
     (\<exists>l. v = JsArray l \<and> l = take 10 (sort_key (\<lambda>(k, q). - q) (entries sold))
          \<and> length l \<le> 10 \<and> sorted_wrt (\<lambda>x y. y \<le> x) (map snd l)
          \<and> mset l \<subseteq># mset sold)"

text \<open>A running total is rounded when rounding it again changes nothing.\<close>

definition rounded_totals :: "stats \<Rightarrow> bool" where
  "rounded_totals s = (round2 (profit s) = profit s \<and> round2 (revenue s) = revenue s)"

text \<open>
  For the comparison of the two files: the fields of an accumulator that no rounding
  touches.
\<close>

definition key_fields :: "'a stats_scheme \<Rightarrow> string \<times> string \<times> nat" where
  "key_fields s = (a_id s, a_name s, sales_count s)"

text \<open>
  The same three fields of a report, and what one purchase record of a known seller does
  to them: the sale is counted.
\<close>

definition report_key :: "report \<Rightarrow> string \<times> string \<times> nat" where
  "report_key r = (r_seller_id r, r_name r, r_sales_count r)"

definition count_sale :: "nat \<Rightarrow> (string \<times> string \<times> nat) list \<Rightarrow> (string \<times> string \<times> nat) list" where
  "count_sale i ks = ks[i := (case ks ! i of (a, b, c) \<Rightarrow> (a, b, c + 1))]"

section \<open>Concrete inputs\<close>

text \<open>An accumulator of which only the profit matters.\<close>

definition mk_stats :: "rat \<Rightarrow> stats" where
  "mk_stats p = \<lparr>a_id = [], a_name = [], revenue = 0, profit = p, sales_count = 0,
                  products_sold = []\<rparr>"

text \<open>One seller, one product, one sale of two units at 100 that cost 50 each.\<close>

definition lone_seller_data :: "data option" where
  "lone_seller_data =
     Some \<lparr>sellers = Array [\<lparr>s_id = ''s1'', first_name = ''Ann'', last_name = ''Lee''\<rparr>],
           products = Array [\<lparr>sku = ''SKU_1'', purchase_price = 50\<rparr>],
           purchase_records = Array [\<lparr>seller_id = ''s1'',
              items = [\<lparr>i_sku = ''SKU_1'', quantity = 2, sale_price = 100, discount = 0\<rparr>]\<rparr>]\<rparr>"

text \<open>
  Two sellers and a product that costs nothing. The first seller sells one unit at 1/8
  and one at 1/128 in one record, the second one unit at 69/512: all of them binary
  fractions, exact as doubles.
\<close>

definition rounding_input :: data where
  "rounding_input =
     \<lparr>sellers = Array [\<lparr>s_id = ''s1'', first_name = ''Ann'', last_name = ''Lee''\<rparr>,
                        \<lparr>s_id = ''s2'', first_name = ''Bob'', last_name = ''Ray''\<rparr>],
      products = Array [\<lparr>sku = ''SKU_1'', purchase_price = 0\<rparr>],
      purchase_records = Array
        [\<lparr>seller_id = ''s1'',
          items = [\<lparr>i_sku = ''SKU_1'', quantity = 1, sale_price = 1 / 8, discount = 0\<rparr>,
                   \<lparr>i_sku = ''SKU_1'', quantity = 1, sale_price = 1 / 128, discount = 0\<rparr>]\<rparr>,
         \<lparr>seller_id = ''s2'',
          items = [\<lparr>i_sku = ''SKU_1'', quantity = 1, sale_price = 69 / 512, discount = 0\<rparr>]\<rparr>]\<rparr>"

text \<open>The first line item of \<open>rounding_input\<close>.\<close>

definition eighth_item :: line_item where
  "eighth_item = \<lparr>i_sku = ''SKU_1'', quantity = 1, sale_price = 1 / 8, discount = 0\<rparr>"

text \<open>
  The input of \<open>lone_seller_data\<close> with two referential gaps added: a line item whose
  SKU is not in the catalogue, and a purchase record of an unknown seller.
\<close>

definition gap_input :: data where
  "gap_input =
     \<lparr>sellers = Array [\<lparr>s_id = ''s1'', first_name = ''Ann'', last_name = ''Lee''\<rparr>],
      products = Array [\<lparr>sku = ''SKU_1'', purchase_price = 50\<rparr>],
      purchase_records = Array
        [\<lparr>seller_id = ''s1'',
          items = [\<lparr>i_sku = ''SKU_9'', quantity = 3, sale_price = 10, discount = 0\<rparr>,
                   \<lparr>i_sku = ''SKU_1'', quantity = 2, sale_price = 100, discount = 0\<rparr>]\<rparr>,
         \<lparr>seller_id = ''s7'',
          items = [\<lparr>i_sku = ''SKU_1'', quantity = 5, sale_price = 100, discount = 0\<rparr>]\<rparr>]\<rparr>"

text \<open>
  The input of \<open>lone_seller_data\<close> with one more purchase record, of a seller that is
  not in \<^verbatim>\<open>data.sellers\<close> and whose identifier is \<^verbatim>\<open>toString\<close>.
\<close>

definition inherited_seller_input :: data where
  "inherited_seller_input =
     \<lparr>sellers = Array [\<lparr>s_id = ''s1'', first_name = ''Ann'', last_name = ''Lee''\<rparr>],
      products = Array [\<lparr>sku = ''SKU_1'', purchase_price = 50\<rparr>],
      purchase_records = Array
        [\<lparr>seller_id = ''s1'',
          items = [\<lparr>i_sku = ''SKU_1'', quantity = 2, sale_price = 100, discount = 0\<rparr>]\<rparr>,
         \<lparr>seller_id = ''toString'',
          items = [\<lparr>i_sku = ''SKU_1'', quantity = 5, sale_price = 100, discount = 0\<rparr>]\<rparr>]\<rparr>"

text \<open>
  The input of \<open>lone_seller_data\<close> with one more line item, of a product that is not in
  the catalogue and whose SKU is \<^verbatim>\<open>constructor\<close>.
\<close>

definition inherited_sku_input :: data where
  "inherited_sku_input =
     \<lparr>sellers = Array [\<lparr>s_id = ''s1'', first_name = ''Ann'', last_name = ''Lee''\<rparr>],
      products = Array [\<lparr>sku = ''SKU_1'', purchase_price = 50\<rparr>],
      purchase_records = Array
        [\<lparr>seller_id = ''s1'',
          items = [\<lparr>i_sku = ''constructor'', quantity = 3, sale_price = 10, discount = 0\<rparr>,
                   \<lparr>i_sku = ''SKU_1'', quantity = 2, sale_price = 100, discount = 0\<rparr>]\<rparr>]\<rparr>"


text \<open>The input \<open>lone_seller_data\<close> in a store; the data object is at address 0.\<close>

definition lone_seller_store :: store where
  "lone_seller_store =
     [DataCell (Ref 1) (Ref 3) (Ref 5),
      ArrayCell [2],
      SellerCell \<lparr>s_id = ''s1'', first_name = ''Ann'', last_name = ''Lee''\<rparr>,
      ArrayCell [4],
      ProductCell \<lparr>sku = ''SKU_1'', purchase_price = 50\<rparr>,
      ArrayCell [6],
      RecordCell ''s1'' 7,
      ArrayCell [8],
      ItemCell \<lparr>i_sku = ''SKU_1'', quantity = 2, sale_price = 100, discount = 0\<rparr>]"

section \<open>Rounding and the two indexes\<close>




lemma floor_int_half: "\<lfloor>(of_int n :: rat) + 1 / 2\<rfloor> = n"
  by (simp add: floor_unique)

lemma round2_cents: "0 \<le> n \<Longrightarrow> round2 (of_int n / 100) = of_int n / 100"
  by (simp add: round2_def floor_int_half)

lemma round2_cents_neg: "0 \<le> n \<Longrightarrow> round2 (- (of_int n / 100)) = - (of_int n / 100)"
proof (cases "n = 0")
  case True
  then show ?thesis using floor_int_half [of 0] by (simp add: round2_def)
next
  case False
  assume "0 \<le> n"
  with False have "0 < n" by simp
  then show ?thesis by (simp add: round2_def floor_int_half)
qed

lemma round2_idem: "round2 (round2 x) = round2 x"
proof (cases "x < 0")
  case True
  then have "0 \<le> \<lfloor>(- x) * 100 + 1 / 2\<rfloor>" by simp
  then show ?thesis using True round2_cents_neg [of "\<lfloor>(- x) * 100 + 1 / 2\<rfloor>"]
    by (simp add: round2_def)
next
  case False
  then have "0 \<le> \<lfloor>x * 100 + 1 / 2\<rfloor>" by simp
  then show ?thesis using False round2_cents [of "\<lfloor>x * 100 + 1 / 2\<rfloor>"]
    by (simp add: round2_def)
qed

lemma round2_zero [simp]: "round2 0 = 0"
  using floor_int_half [of 0] by (simp add: round2_def)

lemma fromEntries_map_of: "fromEntries kvs = map_of (rev kvs)"
proof -
  have "fold (\<lambda>(k, v) m. m(k \<mapsto> v)) kvs m0 = m0 ++ map_of (rev kvs)" for m0 :: "'a \<rightharpoonup> 'b"
    by (induction kvs arbitrary: m0) auto
  then show ?thesis by (simp add: fromEntries_def)
qed

lemma sellerIndex_Some:
  "sellerIndex st k = Some i \<Longrightarrow> i < length st \<and> a_id (st ! i) = k"
  unfolding sellerIndex_def fromEntries_map_of
  by (auto dest!: map_of_SomeD)

lemma sellerIndex_None: "(sellerIndex st k = None) = (k \<notin> a_id ` set st)"
proof -
  have "fst ` set (rev (map (\<lambda>i. (a_id (st ! i), i)) [0..<length st])) = a_id ` set st"
    by (force simp: in_set_conv_nth image_iff)
  then show ?thesis
    unfolding sellerIndex_def fromEntries_map_of map_of_eq_None_iff by simp
qed

lemma productIndex_None: "(productIndex ps k = None) = (k \<notin> sku ` set ps)"
  unfolding productIndex_def fromEntries_map_of map_of_eq_None_iff
  by (simp add: image_image)

section \<open>Lookups and the keys of \<^verbatim>\<open>Object.prototype\<close>\<close>

lemma js_get_Own: "(js_get obj k = Own v) = (obj k = Some v)"
  by (simp add: js_get_def split: option.splits)

lemma js_get_Missing:
  "(js_get obj k = Missing) = (obj k = None \<and> k \<notin> set object_prototype_keys)"
  by (simp add: js_get_def split: option.splits)

lemma js_get_plain:
  "k \<notin> set object_prototype_keys \<Longrightarrow>
   js_get obj k = (case obj k of None \<Rightarrow> Missing | Some v \<Rightarrow> Own v)"
  by (simp add: js_get_def split: option.splits)

lemma find_skip: "\<not> P x \<Longrightarrow> find P (xs @ x # ys) = find P (xs @ ys)"
  by (induction xs) simp_all

lemma record_effect_plain:
  assumes "seller_id r \<notin> set object_prototype_keys" and "plain_items (items r)"
  shows "record_effect sidx pidx r = Typed"
proof -
  have "\<not> list_ex (\<lambda>item. i_sku item \<in> set object_prototype_keys) (items r)"
    using assms(2) by (simp add: plain_items_def list_all_iff list_ex_iff)
  then show ?thesis
    using assms(1) by (simp add: record_effect_def js_get_plain split: option.splits)
qed

lemma record_effect_missing:
  "js_get sidx (seller_id r) = Missing \<Longrightarrow> record_effect sidx pidx r = Typed"
  by (simp add: record_effect_def)

lemma record_effect_items:
  assumes "js_get pidx (i_sku it) = Missing"
  shows "record_effect sidx pidx (q\<lparr>items := xs @ it # ys\<rparr>)
       = record_effect sidx pidx (q\<lparr>items := xs @ ys\<rparr>)"
proof -
  have "i_sku it \<notin> set object_prototype_keys"
    using assms by (simp add: js_get_Missing)
  moreover have "find (\<lambda>item. js_get pidx (i_sku item) \<noteq> Missing) (xs @ it # ys)
                   = find (\<lambda>item. js_get pidx (i_sku item) \<noteq> Missing) (xs @ ys)"
    using assms by (intro find_skip) simp
  ultimately show ?thesis
    by (cases "js_get sidx (seller_id q)") (simp_all add: record_effect_def list_ex_iff)
qed

lemma inherited_effect_plain:
  assumes "plain_keys (elems (purchase_records d))"
  shows "inherited_effect (Some d) = Typed"
proof -
  have "\<forall>r \<in> set (elems (purchase_records d)).
          record_effect (sellerIndex (init_stats (elems (sellers d))))
                        (productIndex (elems (products d))) r = Typed"
    using assms by (simp add: plain_keys_def list_all_iff record_effect_plain)
  then have "find (\<lambda>e. e \<noteq> Typed)
                  (map (record_effect (sellerIndex (init_stats (elems (sellers d))))
                                      (productIndex (elems (products d))))
                       (elems (purchase_records d))) = None"
    by (simp add: find_None_iff)
  then show ?thesis
    by (simp add: inherited_effect_def)
qed

lemma analyze_part_js_plain:
  "plain_keys (elems (purchase_records d)) \<Longrightarrow>
   analyzeSalesData_part_js (Some d) opts =
     (case analyzeSalesData_part (Some d) opts of Inl e \<Rightarrow> Throws e | Inr reports \<Rightarrow> Returns reports)"
  by (simp add: analyzeSalesData_part_js_def inherited_effect_plain split: sum.splits)

lemma analyze_main_js_plain:
  "plain_keys (elems (purchase_records d)) \<Longrightarrow>
   analyzeSalesData_main_js (Some d) opts =
     (case analyzeSalesData_main (Some d) opts of Inl e \<Rightarrow> Throws e | Inr reports \<Rightarrow> Returns reports)"
  by (simp add: analyzeSalesData_main_js_def inherited_effect_plain split: sum.splits)

lemma rounding_input_plain: "plain_keys (elems (purchase_records rounding_input))"
  unfolding rounding_input_def plain_keys_def plain_items_def object_prototype_keys_def
  by simp

section \<open>The strategy functions\<close>

text \<open>
  Claim C5. \<^verbatim>\<open>calculateSimpleRevenue(lineItem, product)\<close> returns
  \<open>fullPrice * (1 - discount / 100)\<close> with \<open>fullPrice = sale_price * quantity\<close>, whatever
  the product is; for the item with sale price 100, quantity 2 and discount 10 it
  returns 180.
\<close>

theorem calculateSimpleRevenue_formula:
  "calculateSimpleRevenue item p = (sale_price item * quantity item) * (1 - discount item / 100)
   \<and> calculateSimpleRevenue item p = calculateSimpleRevenue item p'
   \<and> calculateSimpleRevenue \<lparr>i_sku = k, quantity = 2, sale_price = 100, discount = 10\<rparr> p = 180"
  by (simp add: calculateSimpleRevenue_def)

text \<open>
  Claim C2. \<^verbatim>\<open>calculateBonusByProfit(rank, total, seller)\<close> is the tier of the first
  matching branch: rank 0 gives 15 percent of the profit, rank 1 or 2 gives 10 percent,
  otherwise the last rank gives 0 and every other rank 5 percent. For five sellers with
  the profits 500, 300, 300, 100, 50 the bonuses are 75, 30, 30, 5, 0.
\<close>

theorem calculateBonusByProfit_tiers:
  "calculateBonusByProfit rank n seller =
     (if rank = 0 then profit seller * (15 / 100)
      else if rank = 1 \<or> rank = 2 then profit seller * (10 / 100)
      else if rank = n - 1 then 0
      else profit seller * (5 / 100))
   \<and> map (\<lambda>(rank, p). calculateBonusByProfit rank 5 (mk_stats p))
         [(0, 500), (1, 300), (2, 300), (3, 100), (4, 50)] = [75, 30, 30, 5, 0]"
  by (simp add: calculateBonusByProfit_def mk_stats_def)

text \<open>
  Claim C3. With one seller, rank 0 is the first rank and the last rank (\<open>0 = 1 - 1\<close>);
  the bonus is 15 percent of the profit, because the test for the first rank comes
  first. Both analysers report the bonus 15 for a lone seller whose profit is 100.
\<close>

theorem lone_seller_top_tier:
  "calculateBonusByProfit 0 1 seller = profit seller * (15 / 100)
   \<and> (0::int) = 1 - 1
   \<and> analyzeSalesData_part lone_seller_data default_options =
       Inr [\<lparr>r_seller_id = ''s1'', r_name = ''Ann Lee'', r_revenue = 200, r_profit = 100,
             r_sales_count = 1, r_top_products = JsArray [(''SKU_1'', 2)], r_bonus = 15\<rparr>]
   \<and> analyzeSalesData_main lone_seller_data default_options =
       Inr [\<lparr>r_seller_id = ''s1'', r_name = ''Ann Lee'', r_revenue = 200, r_profit = 100,
             r_sales_count = 1, r_top_products = JsNumber NaN, r_bonus = 15\<rparr>]"
proof -
  have a: "calculateBonusByProfit 0 1 seller = profit seller * (15 / 100)"
    by (simp add: calculateBonusByProfit_def)
  have b: "analyzeSalesData_part lone_seller_data default_options =
       Inr [\<lparr>r_seller_id = ''s1'', r_name = ''Ann Lee'', r_revenue = 200, r_profit = 100,
             r_sales_count = 1, r_top_products = JsArray [(''SKU_1'', 2)], r_bonus = 15\<rparr>]"
    unfolding lone_seller_data_def default_options_def by code_simp
  have c: "analyzeSalesData_main lone_seller_data default_options =
       Inr [\<lparr>r_seller_id = ''s1'', r_name = ''Ann Lee'', r_revenue = 200, r_profit = 100,
             r_sales_count = 1, r_top_products = JsNumber NaN, r_bonus = 15\<rparr>]"
    unfolding lone_seller_data_def default_options_def by code_simp
  show ?thesis using a b c by simp
qed

section \<open>Validation\<close>

lemma collection_bad_iff: "collection_bad c = (\<not> isArray c \<or> length (elems c) = 0)"
  by (cases c) auto

lemma invalid_data_spec: "invalid_data d = spec_invalid_input d"
  by (simp add: invalid_data_def spec_invalid_input_def collection_bad_iff split: option.splits)

lemma member_bad_iff: "member_bad m = (\<not> isFunction m)"
  by (cases m) auto

lemma invalid_strategies_spec:
  "spec_invalid_strategies opts = (options_not_object opts \<or> options_missing_functions opts)"
  by (cases opts) (auto simp: member_bad_iff)

lemma analyze_part_cases:
  "analyzeSalesData_part d opts =
     (if invalid_data d then Inl InvalidData
      else if options_not_object opts then Inl OptionsNotObject
      else if options_missing_functions opts then Inl OptionsMissingFunctions
      else Inr (projr (analyzeSalesData_part d opts)))"
  unfolding analyzeSalesData_part_def
  by (cases d; cases opts rule: options_missing_functions.cases)
     (auto simp: invalid_data_def split: js_member.splits)

lemma analyze_main_cases:
  "analyzeSalesData_main d opts =
     (if invalid_data d then Inl InvalidData
      else if options_not_object opts then Inl OptionsNotObject
      else if options_missing_functions opts then Inl OptionsMissingFunctions
      else Inr (projr (analyzeSalesData_main d opts)))"
  unfolding analyzeSalesData_main_def
  by (cases d; cases opts rule: options_missing_functions.cases)
     (auto simp: invalid_data_def split: js_member.splits)

text \<open>
  Claim C7, as amended. Both analysers fail with the invalid-input error exactly when
  the data is missing or one of the three collections is missing, not a sequence or
  empty. They fail with an invalid-strategy error exactly when the data passes that test
  and the strategies argument is missing, not an object, or lacks one of the two
  functions: the data is tested first. They return a report exactly when both tests
  pass; an error result carries no report.
\<close>

theorem validation_errors:
  "is_InvalidInputError (analyzeSalesData_part d opts) = spec_invalid_input d
   \<and> is_InvalidStrategyError (analyzeSalesData_part d opts)
       = (\<not> spec_invalid_input d \<and> spec_invalid_strategies opts)
   \<and> (\<exists>reports. analyzeSalesData_part d opts = Inr reports)
       = (\<not> spec_invalid_input d \<and> \<not> spec_invalid_strategies opts)
   \<and> is_InvalidInputError (analyzeSalesData_main d opts) = spec_invalid_input d
   \<and> is_InvalidStrategyError (analyzeSalesData_main d opts)
       = (\<not> spec_invalid_input d \<and> spec_invalid_strategies opts)
   \<and> (\<exists>reports. analyzeSalesData_main d opts = Inr reports)
       = (\<not> spec_invalid_input d \<and> \<not> spec_invalid_strategies opts)"
proof -
  have p: "is_InvalidInputError (analyzeSalesData_part d opts) = spec_invalid_input d"
    "is_InvalidStrategyError (analyzeSalesData_part d opts)
       = (\<not> spec_invalid_input d \<and> spec_invalid_strategies opts)"
    "(\<exists>reports. analyzeSalesData_part d opts = Inr reports)
       = (\<not> spec_invalid_input d \<and> \<not> spec_invalid_strategies opts)"
    by (subst analyze_part_cases,
        simp add: is_InvalidInputError_def is_InvalidStrategyError_def
          invalid_data_spec invalid_strategies_spec)+
  have m: "is_InvalidInputError (analyzeSalesData_main d opts) = spec_invalid_input d"
    "is_InvalidStrategyError (analyzeSalesData_main d opts)
       = (\<not> spec_invalid_input d \<and> spec_invalid_strategies opts)"
    "(\<exists>reports. analyzeSalesData_main d opts = Inr reports)
       = (\<not> spec_invalid_input d \<and> \<not> spec_invalid_strategies opts)"
    by (subst analyze_main_cases,
        simp add: is_InvalidInputError_def is_InvalidStrategyError_def
          invalid_data_spec invalid_strategies_spec)+
  from p m show ?thesis by blast
qed

theorem validation_errors_witness:
  "is_InvalidInputError (analyzeSalesData_part None default_options)
   \<and> is_InvalidStrategyError (analyzeSalesData_part lone_seller_data OptFalsy)
   \<and> (\<exists>reports. analyzeSalesData_main lone_seller_data default_options = Inr reports)"
  using validation_errors [of None default_options]
    validation_errors [of lone_seller_data OptFalsy]
    validation_errors [of lone_seller_data default_options]
  by (simp add: spec_invalid_input_def lone_seller_data_def default_options_def)

text \<open>
  With neither data nor strategies the strategies are missing, yet the failure is the
  invalid-input error and not an invalid-strategy error.
\<close>

theorem strategy_error_iff_counterexample:
  "spec_invalid_strategies OptFalsy
   \<and> \<not> is_InvalidStrategyError (analyzeSalesData_part None OptFalsy)
   \<and> \<not> is_InvalidStrategyError (analyzeSalesData_main None OptFalsy)"
  by (simp add: is_InvalidStrategyError_def analyzeSalesData_part_def
      analyzeSalesData_main_def invalid_data_def)

section \<open>What accumulation and ranking keep\<close>

lemma item_step_part_kept:
  "a_id (fst (item_step_part cr pidx it st)) = a_id (fst st)
   \<and> a_name (fst (item_step_part cr pidx it st)) = a_name (fst st)
   \<and> sales_count (fst (item_step_part cr pidx it st)) = sales_count (fst st)
   \<and> revenue (fst (item_step_part cr pidx it st)) = revenue (fst st)"
  by (simp add: item_step_part_def Let_def split: option.splits)

lemma item_step_main_kept:
  "a_id (fst (item_step_main cr pidx it st)) = a_id (fst st)
   \<and> a_name (fst (item_step_main cr pidx it st)) = a_name (fst st)
   \<and> sales_count (fst (item_step_main cr pidx it st)) = sales_count (fst st)
   \<and> revenue (fst (item_step_main cr pidx it st)) = revenue (fst st)"
  by (simp add: item_step_main_def Let_def split: option.splits)

lemma items_part_kept:
  "a_id (fst (fold (item_step_part cr pidx) its st)) = a_id (fst st)
   \<and> a_name (fst (fold (item_step_part cr pidx) its st)) = a_name (fst st)
   \<and> sales_count (fst (fold (item_step_part cr pidx) its st)) = sales_count (fst st)
   \<and> revenue (fst (fold (item_step_part cr pidx) its st)) = revenue (fst st)"
  by (induction its arbitrary: st) (simp_all add: item_step_part_kept)

lemma items_main_kept:
  "a_id (fst (fold (item_step_main cr pidx) its st)) = a_id (fst st)
   \<and> a_name (fst (fold (item_step_main cr pidx) its st)) = a_name (fst st)
   \<and> sales_count (fst (fold (item_step_main cr pidx) its st)) = sales_count (fst st)
   \<and> revenue (fst (fold (item_step_main cr pidx) its st)) = revenue (fst st)"
  by (induction its arbitrary: st) (simp_all add: item_step_main_kept)


lemma record_step_part_length [simp]:
  "length (record_step_part cr pidx sidx r st) = length st"
  by (simp add: record_step_part_def Let_def split: option.splits)

lemma record_step_main_length [simp]:
  "length (record_step_main cr pidx sidx r st) = length st"
  by (simp add: record_step_main_def Let_def split: option.splits)








lemma rank_part_map:
  "rank_part cb xs = map (\<lambda>i. stats.extend (xs ! i)
      \<lparr>bonus = round2 (cb (int i) (int (length xs)) (xs ! i)),
       top_products = top_of (products_sold (xs ! i))\<rparr>) [0..<length xs]"
  by (simp add: rank_part_def Let_def)

lemma rank_main_map:
  "rank_main cb xs = map (\<lambda>i. stats.extend (xs ! i)
      \<lparr>bonus = cb (int i) (int (length xs)) (xs ! i),
       top_products = top_of (products_sold (xs ! i))\<rparr>) [0..<length xs]"
  by (simp add: rank_main_def Let_def)

lemma map_index_nth: "map (\<lambda>i. f (xs ! i)) [0..<length xs] = map f xs"
  by (rule nth_equalityI) simp_all


lemma reports_main_fields:
  "map r_seller_id (map report_main (rank_main cb xs)) = map a_id xs
   \<and> map r_name (map report_main (rank_main cb xs)) = map a_name xs
   \<and> map r_sales_count (map report_main (rank_main cb xs)) = map sales_count xs
   \<and> map r_profit (map report_main (rank_main cb xs)) = map (\<lambda>s. round2 (profit s)) xs
   \<and> map r_revenue (map report_main (rank_main cb xs)) = map (\<lambda>s. round2 (revenue s)) xs
   \<and> map r_top_products (map report_main (rank_main cb xs))
       = map (\<lambda>s. JsNumber (unary_plus_array (top_of (products_sold s)))) xs"
  unfolding rank_main_map
  by (intro conjI nth_equalityI) (simp_all add: report_main_def stats.defs)


lemma sort_by_profit_mset [simp]: "mset (sort_by_profit xs) = mset xs"
  by (simp add: sort_by_profit_def)

lemma sort_by_profit_length [simp]: "length (sort_by_profit xs) = length xs"
  by (simp add: sort_by_profit_def)

lemma analyze_part_valid:
  "\<not> invalid_data (Some d) \<Longrightarrow>
   analyzeSalesData_part (Some d) (OptObject (Function cr) (Function cb)) =
     Inr (map report_part (rank_part cb (sort_by_profit
            (accumulate_part cr (elems (products d)) (elems (purchase_records d))
               (init_stats (elems (sellers d)))))))"
  by (simp add: analyzeSalesData_part_def)

lemma analyze_main_valid:
  "\<not> invalid_data (Some d) \<Longrightarrow>
   analyzeSalesData_main (Some d) (OptObject (Function cr) (Function cb)) =
     Inr (map report_main (rank_main cb (sort_by_profit
            (accumulate_main cr (elems (products d)) (elems (purchase_records d))
               (init_stats (elems (sellers d)))))))"
  by (simp add: analyzeSalesData_main_def)

lemma valid_shape:
  "analyzeSalesData_part dat opts = Inr reports \<or> analyzeSalesData_main dat opts = Inr reports' \<Longrightarrow>
   \<exists>d cr cb. dat = Some d \<and> opts = OptObject (Function cr) (Function cb) \<and> \<not> invalid_data (Some d)"
  unfolding analyzeSalesData_part_def analyzeSalesData_main_def
  by (cases dat; cases opts rule: options_missing_functions.cases)
     (auto simp: invalid_data_def split: js_member.splits if_splits)

section \<open>One report per element of \<^verbatim>\<open>data.sellers\<close>, ordered by profit\<close>






section \<open>The two files compared\<close>

lemma record_step_part_keys:
  "map key_fields (record_step_part cr pidx sidx r st) =
     (case sidx (seller_id r) of None \<Rightarrow> map key_fields st
      | Some i \<Rightarrow> count_sale i (map key_fields st))"
proof (cases "sidx (seller_id r)")
  case None
  then show ?thesis by (simp add: record_step_part_def)
next
  case (Some i)
  show ?thesis
  proof (cases "i < length st")
    case True
    with Some show ?thesis
      by (simp add: record_step_part_def Let_def count_sale_def map_update key_fields_def
          items_part_kept)
  next
    case False
    then have "st[i := x] = st" for x by (intro list_update_beyond) simp
    moreover from False have "(map key_fields st)[i := y] = map key_fields st" for y
      by (intro list_update_beyond) simp
    ultimately show ?thesis using Some
      by (simp add: record_step_part_def Let_def count_sale_def)
  qed
qed

lemma record_step_main_keys:
  "map key_fields (record_step_main cr pidx sidx r st) =
     (case sidx (seller_id r) of None \<Rightarrow> map key_fields st
      | Some i \<Rightarrow> count_sale i (map key_fields st))"
proof (cases "sidx (seller_id r)")
  case None
  then show ?thesis by (simp add: record_step_main_def)
next
  case (Some i)
  show ?thesis
  proof (cases "i < length st")
    case True
    with Some show ?thesis
      by (simp add: record_step_main_def Let_def count_sale_def map_update key_fields_def
          items_main_kept)
  next
    case False
    then have "st[i := x] = st" for x by (intro list_update_beyond) simp
    moreover from False have "(map key_fields st)[i := y] = map key_fields st" for y
      by (intro list_update_beyond) simp
    ultimately show ?thesis using Some
      by (simp add: record_step_main_def Let_def count_sale_def)
  qed
qed

lemma records_keys_agree:
  "map key_fields stm = map key_fields stp \<Longrightarrow>
   map key_fields (fold (record_step_main cr pidx sidx) rs stm)
     = map key_fields (fold (record_step_part cr' pidx' sidx) rs stp)"
proof (induction rs arbitrary: stm stp)
  case Nil
  then show ?case by simp
next
  case (Cons r rs)
  have "map key_fields (record_step_main cr pidx sidx r stm)
          = map key_fields (record_step_part cr' pidx' sidx r stp)"
    unfolding record_step_main_keys record_step_part_keys Cons.prems ..
  then show ?case using Cons.IH by simp
qed

lemma accumulate_keys_agree:
  "map key_fields (accumulate_main cr ps rs st) = map key_fields (accumulate_part cr ps rs st)"
  unfolding accumulate_main_def accumulate_part_def
  by (rule records_keys_agree) simp

lemma report_part_keys:
  "map report_key (map report_part (rank_part cb xs)) = map key_fields xs"
  unfolding rank_part_map
  by (intro nth_equalityI) (simp_all add: report_part_def report_key_def key_fields_def stats.defs)

lemma report_main_keys:
  "map report_key (map report_main (rank_main cb xs)) = map key_fields xs"
  unfolding rank_main_map
  by (intro nth_equalityI) (simp_all add: report_main_def report_key_def key_fields_def stats.defs)

text \<open>
  Claim C9, as amended. For every input that passes validation and in which no purchase
  record and no line item carries the name of a member of \<^verbatim>\<open>Object.prototype\<close>, and
  for every pair of strategy functions (the default ones among them), the two files
  return the same number of reports and, seller for seller, the same identifier, name
  and sales count. Revenue, profit, bonus and the order of the reports are left out: the
  two files round at different places.
\<close>

theorem implementations_agree_on_keys:
  assumes "\<not> spec_invalid_input (Some d)" and "plain_keys (elems (purchase_records d))"
  shows "\<exists>rm rp. analyzeSalesData_main_js (Some d) (OptObject (Function cr) (Function cb)) = Returns rm
           \<and> analyzeSalesData_part_js (Some d) (OptObject (Function cr) (Function cb)) = Returns rp
           \<and> length rm = length rp
           \<and> mset (map report_key rm) = mset (map report_key rp)"
proof -
  let ?ss = "init_stats (elems (sellers d))"
  let ?am = "accumulate_main cr (elems (products d)) (elems (purchase_records d)) ?ss"
  let ?ap = "accumulate_part cr (elems (products d)) (elems (purchase_records d)) ?ss"
  let ?rm = "map report_main (rank_main cb (sort_by_profit ?am))"
  let ?rp = "map report_part (rank_part cb (sort_by_profit ?ap))"
  have v: "\<not> invalid_data (Some d)" using assms(1) by (simp add: invalid_data_spec)
  have "mset (map report_key ?rm) = mset (map key_fields (sort_by_profit ?am))"
    by (simp only: report_main_keys)
  also have "\<dots> = mset (map key_fields ?am)"
    by simp
  also have "\<dots> = mset (map key_fields ?ap)"
    by (simp only: accumulate_keys_agree)
  also have "\<dots> = mset (map key_fields (sort_by_profit ?ap))"
    by simp
  also have "\<dots> = mset (map report_key ?rp)"
    by (simp only: report_part_keys)
  finally have m: "mset (map report_key ?rm) = mset (map report_key ?rp)" .
  then have "length (map report_key ?rm) = length (map report_key ?rp)"
    by (metis size_mset)
  then have l: "length ?rm = length ?rp" by simp
  have "analyzeSalesData_main_js (Some d) (OptObject (Function cr) (Function cb)) = Returns ?rm"
    "analyzeSalesData_part_js (Some d) (OptObject (Function cr) (Function cb)) = Returns ?rp"
    by (simp_all add: analyze_part_js_plain [OF assms(2)] analyze_main_js_plain [OF assms(2)]
        analyze_part_valid [OF v] analyze_main_valid [OF v])
  then show ?thesis using m l by blast
qed

theorem implementations_agree_on_keys_witness:
  "\<not> spec_invalid_input (Some rounding_input)
   \<and> plain_keys (elems (purchase_records rounding_input))
   \<and> (\<exists>rm rp. analyzeSalesData_main_js (Some rounding_input) default_options = Returns rm
           \<and> analyzeSalesData_part_js (Some rounding_input) default_options = Returns rp
           \<and> length rm = length rp
           \<and> mset (map report_key rm) = mset (map report_key rp))"
proof -
  have v: "\<not> spec_invalid_input (Some rounding_input)"
    by (simp add: rounding_input_def spec_invalid_input_def)
  show ?thesis
    using implementations_agree_on_keys [OF v rounding_input_plain,
        of calculateSimpleRevenue calculateBonusByProfit] v rounding_input_plain
    unfolding default_options_def by auto
qed

text \<open>
  On \<open>rounding_input\<close> with the default strategies the two files return different
  sequences: \<^verbatim>\<open>part_000\<close> rounds 1/8 to 0.13 before it adds 1/128 and reports the
  profit 0.14 for the first seller, who comes first; \<^verbatim>\<open>src/main.js\<close> adds first,
  reports 0.13 and ranks the second seller first.
\<close>

theorem implementations_differ_counterexample:
  "analyzeSalesData_part (Some rounding_input) default_options =
     Inr [\<lparr>r_seller_id = ''s1'', r_name = ''Ann Lee'', r_revenue = 14 / 100, r_profit = 14 / 100,
           r_sales_count = 1, r_top_products = JsArray [(''SKU_1'', 2)], r_bonus = 2 / 100\<rparr>,
          \<lparr>r_seller_id = ''s2'', r_name = ''Bob Ray'', r_revenue = 13 / 100, r_profit = 13 / 100,
           r_sales_count = 1, r_top_products = JsArray [(''SKU_1'', 1)], r_bonus = 1 / 100\<rparr>]
   \<and> analyzeSalesData_main (Some rounding_input) default_options =
     Inr [\<lparr>r_seller_id = ''s2'', r_name = ''Bob Ray'', r_revenue = 13 / 100, r_profit = 13 / 100,
           r_sales_count = 1, r_top_products = JsNumber NaN, r_bonus = 2 / 100\<rparr>,
          \<lparr>r_seller_id = ''s1'', r_name = ''Ann Lee'', r_revenue = 14 / 100, r_profit = 13 / 100,
           r_sales_count = 1, r_top_products = JsNumber NaN, r_bonus = 1 / 100\<rparr>]
   \<and> analyzeSalesData_main (Some rounding_input) default_options
       \<noteq> analyzeSalesData_part (Some rounding_input) default_options"
proof -
  have p: "analyzeSalesData_part (Some rounding_input) default_options =
     Inr [\<lparr>r_seller_id = ''s1'', r_name = ''Ann Lee'', r_revenue = 14 / 100, r_profit = 14 / 100,
           r_sales_count = 1, r_top_products = JsArray [(''SKU_1'', 2)], r_bonus = 2 / 100\<rparr>,
          \<lparr>r_seller_id = ''s2'', r_name = ''Bob Ray'', r_revenue = 13 / 100, r_profit = 13 / 100,
           r_sales_count = 1, r_top_products = JsArray [(''SKU_1'', 1)], r_bonus = 1 / 100\<rparr>]"
    unfolding rounding_input_def default_options_def by code_simp
  have m: "analyzeSalesData_main (Some rounding_input) default_options =
     Inr [\<lparr>r_seller_id = ''s2'', r_name = ''Bob Ray'', r_revenue = 13 / 100, r_profit = 13 / 100,
           r_sales_count = 1, r_top_products = JsNumber NaN, r_bonus = 2 / 100\<rparr>,
          \<lparr>r_seller_id = ''s1'', r_name = ''Ann Lee'', r_revenue = 14 / 100, r_profit = 13 / 100,
           r_sales_count = 1, r_top_products = JsNumber NaN, r_bonus = 1 / 100\<rparr>]"
    unfolding rounding_input_def default_options_def by code_simp
  show ?thesis unfolding p m by simp
qed

section \<open>Where the running totals are rounded\<close>

lemma item_step_part_matched:
  "pidx (i_sku item) = Some product \<Longrightarrow>
   item_step_part cr pidx item (seller, sub) =
     (seller\<lparr>profit := round2 (profit seller + (cr item product - purchase_price product * quantity item)),
             products_sold := sold_part (i_sku item) (quantity item) (products_sold seller)\<rparr>,
      round2 (sub + cr item product))"
  by (simp add: item_step_part_def Let_def)

lemma item_step_main_matched:
  "pidx (i_sku item) = Some product \<Longrightarrow>
   item_step_main cr pidx item (seller, sub) =
     (seller\<lparr>profit := profit seller + (cr item product - purchase_price product * quantity item),
             products_sold := sold_main (i_sku item) (quantity item) (products_sold seller)\<rparr>,
      sub + round2 (cr item product))"
  by (simp add: item_step_main_def Let_def)

lemma record_step_part_matched:
  "sidx (seller_id r) = Some i \<Longrightarrow> i < length st \<Longrightarrow>
   revenue (record_step_part cr pidx sidx r st ! i) =
     round2 (revenue (st ! i)
       + snd (fold (item_step_part cr pidx) (items r) ((st ! i)\<lparr>sales_count := sales_count (st ! i) + 1\<rparr>, 0)))"
  by (simp add: record_step_part_def Let_def items_part_kept)

lemma record_step_main_matched:
  "sidx (seller_id r) = Some i \<Longrightarrow> i < length st \<Longrightarrow>
   revenue (record_step_main cr pidx sidx r st ! i) =
     revenue (st ! i)
       + snd (fold (item_step_main cr pidx) (items r) ((st ! i)\<lparr>sales_count := sales_count (st ! i) + 1\<rparr>, 0))"
  by (simp add: record_step_main_def Let_def items_main_kept)

lemma item_step_part_rounded:
  "round2 (profit (fst st)) = profit (fst st) \<Longrightarrow>
   round2 (profit (fst (item_step_part cr pidx it st))) = profit (fst (item_step_part cr pidx it st))"
  by (simp add: item_step_part_def Let_def round2_idem split: option.splits)

lemma items_part_rounded:
  "round2 (profit (fst st)) = profit (fst st) \<Longrightarrow>
   round2 (profit (fst (fold (item_step_part cr pidx) its st)))
     = profit (fst (fold (item_step_part cr pidx) its st))"
  by (induction its arbitrary: st) (simp_all add: item_step_part_rounded)

lemma record_step_part_rounded:
  assumes "list_all rounded_totals st"
  shows "list_all rounded_totals (record_step_part cr pidx sidx r st)"
proof (cases "sidx (seller_id r)")
  case None
  then show ?thesis using assms by (simp add: record_step_part_def)
next
  case (Some i)
  show ?thesis
  proof (cases "i < length st")
    case True
    then have "rounded_totals (st ! i)" using assms by (simp add: list_all_length)
    then have "round2 (profit (fst ((st ! i)\<lparr>sales_count := sales_count (st ! i) + 1\<rparr>, 0::rat)))
                 = profit (fst ((st ! i)\<lparr>sales_count := sales_count (st ! i) + 1\<rparr>, 0::rat))"
      by (simp add: rounded_totals_def)
    from items_part_rounded [OF this, of cr pidx "items r"]
    have "rounded_totals
            ((fst (fold (item_step_part cr pidx) (items r) ((st ! i)\<lparr>sales_count := sales_count (st ! i) + 1\<rparr>, 0)))
               \<lparr>revenue := round2 x\<rparr>)" for x
      by (simp add: rounded_totals_def round2_idem)
    then show ?thesis using assms Some True
      by (auto simp: record_step_part_def Let_def list_all_length nth_list_update)
  next
    case False
    then have "st[i := x] = st" for x by (intro list_update_beyond) simp
    then show ?thesis using assms Some by (simp add: record_step_part_def Let_def)
  qed
qed

lemma records_part_rounded:
  "list_all rounded_totals st \<Longrightarrow>
   list_all rounded_totals (fold (record_step_part cr pidx sidx) rs st)"
  by (induction rs arbitrary: st) (simp_all add: record_step_part_rounded)

lemma accumulate_part_rounded:
  "list_all rounded_totals (accumulate_part cr ps rs (init_stats ss))"
  unfolding accumulate_part_def
  by (rule records_part_rounded) (simp add: init_stats_def list_all_iff rounded_totals_def)

text \<open>
  Claim C1, as amended. A line item is matched when its SKU is that of a product of the
  catalogue, a record when its seller identifier is that of a seller; the line items of
  the record and the records carry no name of a member of \<^verbatim>\<open>Object.prototype\<close>. In
  \<^verbatim>\<open>part_000\<close> every running total is rounded after each step: for a matched line item
  the running profit of the seller is the rounded sum of the old profit and the profit
  of the item, the subtotal of the record is the rounded sum of the old subtotal and the
  revenue of the item, after the items the running revenue is the rounded sum of the old
  revenue and the subtotal, and so the totals of every accumulator are rounded after any
  number of records. In \<^verbatim>\<open>src/main.js\<close> the profit of the item is added to the running
  profit without rounding; the revenue of the item is rounded before it is added to the
  subtotal, and the sum is not rounded; the subtotal is added to the running revenue
  without rounding; profit and revenue are rounded once, in the report.
\<close>

theorem rounding_places:
  assumes "js_get pidx (i_sku item) = Own product"
    and "js_get sidx (seller_id r) = Own i" and "i < length st"
    and "plain_items (items r)" and "plain_keys rs"
  shows
   "profit (fst (item_step_part cr pidx item (seller, sub)))
      = round2 (profit seller + (cr item product - purchase_price product * quantity item))
    \<and> snd (item_step_part cr pidx item (seller, sub)) = round2 (sub + cr item product)
    \<and> revenue (record_step_part cr pidx sidx r st ! i)
      = round2 (revenue (st ! i)
          + snd (fold (item_step_part cr pidx) (items r)
                   ((st ! i)\<lparr>sales_count := sales_count (st ! i) + 1\<rparr>, 0)))
    \<and> record_effect sidx pidx r = Typed
    \<and> list_all (\<lambda>q. record_effect (sellerIndex (init_stats ss)) (productIndex ps) q = Typed) rs
    \<and> list_all rounded_totals (accumulate_part cr ps rs (init_stats ss))
    \<and> profit (fst (item_step_main cr pidx item (seller, sub)))
      = profit seller + (cr item product - purchase_price product * quantity item)
    \<and> snd (item_step_main cr pidx item (seller, sub)) = sub + round2 (cr item product)
    \<and> revenue (record_step_main cr pidx sidx r st ! i)
      = revenue (st ! i)
          + snd (fold (item_step_main cr pidx) (items r)
                   ((st ! i)\<lparr>sales_count := sales_count (st ! i) + 1\<rparr>, 0))
    \<and> map r_profit (map report_main (rank_main cb xs)) = map (\<lambda>s. round2 (profit s)) xs
    \<and> map r_revenue (map report_main (rank_main cb xs)) = map (\<lambda>s. round2 (revenue s)) xs"
proof -
  have p: "pidx (i_sku item) = Some product" and s: "sidx (seller_id r) = Some i"
    using assms(1,2) by (simp_all add: js_get_Own)
  have "\<not> list_ex (\<lambda>item. i_sku item \<in> set object_prototype_keys) (items r)"
    using assms(4) by (simp add: plain_items_def list_all_iff list_ex_iff)
  then have e: "record_effect sidx pidx r = Typed"
    using assms(2) by (simp add: record_effect_def)
  have f: "list_all (\<lambda>q. record_effect (sellerIndex (init_stats ss)) (productIndex ps) q = Typed) rs"
    using assms(5) by (simp add: plain_keys_def list_all_iff record_effect_plain)
  show ?thesis
    using p s e f assms(3) accumulate_part_rounded [of cr ps rs ss] reports_main_fields [of cb xs]
    by (simp add: item_step_part_matched item_step_main_matched
        record_step_part_matched record_step_main_matched)
qed

lemma rounding_input_lookup:
  "js_get (productIndex (elems (products rounding_input))) (i_sku eighth_item)
     = Own \<lparr>sku = ''SKU_1'', purchase_price = 0\<rparr>"
  "js_get (sellerIndex (init_stats (elems (sellers rounding_input))))
     (seller_id \<lparr>seller_id = ''s1'', items = [eighth_item]\<rparr>) = Own 0"
  "0 < length (init_stats (elems (sellers rounding_input)))"
  "plain_items (items \<lparr>seller_id = ''s1'', items = [eighth_item]\<rparr>)"
  unfolding js_get_Own rounding_input_def eighth_item_def plain_items_def object_prototype_keys_def
  by code_simp+

theorem rounding_places_witness:
  "js_get (productIndex (elems (products rounding_input))) (i_sku eighth_item)
     = Own \<lparr>sku = ''SKU_1'', purchase_price = 0\<rparr>
   \<and> js_get (sellerIndex (init_stats (elems (sellers rounding_input)))) ''s1'' = Own 0
   \<and> plain_items [eighth_item]
   \<and> plain_keys (elems (purchase_records rounding_input))
   \<and> profit (fst (item_step_part calculateSimpleRevenue
         (productIndex (elems (products rounding_input))) eighth_item (mk_stats 0, 0))) = 13 / 100
   \<and> snd (item_step_part calculateSimpleRevenue
         (productIndex (elems (products rounding_input))) eighth_item (mk_stats 0, 0)) = 13 / 100
   \<and> profit (fst (item_step_main calculateSimpleRevenue
         (productIndex (elems (products rounding_input))) eighth_item (mk_stats 0, 0))) = 1 / 8
   \<and> snd (item_step_main calculateSimpleRevenue
         (productIndex (elems (products rounding_input))) eighth_item (mk_stats 0, 0)) = 13 / 100"
proof -
  let ?P = "\<lparr>sku = ''SKU_1'', purchase_price = 0\<rparr>"
  have r: "round2 (1 / 8) = 13 / 100" by code_simp
  have v: "calculateSimpleRevenue eighth_item ?P = 1 / 8"
    "purchase_price ?P * quantity eighth_item = 0" "profit (mk_stats 0) = 0"
    by (simp_all add: calculateSimpleRevenue_def eighth_item_def mk_stats_def)
  note t = rounding_places [where pidx = "productIndex (elems (products rounding_input))"
        and item = eighth_item and product = ?P
        and sidx = "sellerIndex (init_stats (elems (sellers rounding_input)))"
        and r = "\<lparr>seller_id = ''s1'', items = [eighth_item]\<rparr>" and i = 0
        and st = "init_stats (elems (sellers rounding_input))"
        and cr = calculateSimpleRevenue and seller = "mk_stats 0" and sub = 0,
        OF rounding_input_lookup rounding_input_plain, unfolded v]
  show ?thesis
    using t rounding_input_lookup(1,2,4) rounding_input_plain r v(1) by simp
qed

text \<open>
  After the accumulation of \<open>rounding_input\<close> in \<^verbatim>\<open>src/main.js\<close> the running
  profits are 17/128 and 69/512, neither of them rounded to two decimals;
  \<^verbatim>\<open>part_000\<close> holds 0.14 and 0.13.
\<close>

theorem running_totals_unrounded_counterexample:
  "map profit (accumulate_main calculateSimpleRevenue (elems (products rounding_input))
       (elems (purchase_records rounding_input)) (init_stats (elems (sellers rounding_input))))
     = [17 / 128, 69 / 512]
   \<and> round2 (17 / 128) = 13 / 100 \<and> round2 (69 / 512) = 13 / 100
   \<and> map profit (accumulate_part calculateSimpleRevenue (elems (products rounding_input))
       (elems (purchase_records rounding_input)) (init_stats (elems (sellers rounding_input))))
     = [14 / 100, 13 / 100]"
  unfolding rounding_input_def by code_simp

section \<open>Referential gaps\<close>

lemma init_stats_index_None:
  "(sellerIndex (init_stats ss) k = None) = (k \<notin> s_id ` set ss)"
  by (simp add: sellerIndex_None init_stats_def image_image)

lemma record_step_part_unknown:
  "sidx (seller_id r) = None \<Longrightarrow> record_step_part cr pidx sidx r st = st"
  by (simp add: record_step_part_def)

lemma record_step_main_unknown:
  "sidx (seller_id r) = None \<Longrightarrow> record_step_main cr pidx sidx r st = st"
  by (simp add: record_step_main_def)

lemma item_step_part_unknown:
  "pidx (i_sku it) = None \<Longrightarrow> item_step_part cr pidx it st = st"
  by (simp add: item_step_part_def)

lemma item_step_main_unknown:
  "pidx (i_sku it) = None \<Longrightarrow> item_step_main cr pidx it st = st"
  by (simp add: item_step_main_def)

lemma record_step_part_items:
  "pidx (i_sku it) = None \<Longrightarrow>
   record_step_part cr pidx sidx (q\<lparr>items := xs @ it # ys\<rparr>) st
     = record_step_part cr pidx sidx (q\<lparr>items := xs @ ys\<rparr>) st"
  by (simp add: record_step_part_def item_step_part_unknown Let_def split: option.splits)

lemma record_step_main_items:
  "pidx (i_sku it) = None \<Longrightarrow>
   record_step_main cr pidx sidx (q\<lparr>items := xs @ it # ys\<rparr>) st
     = record_step_main cr pidx sidx (q\<lparr>items := xs @ ys\<rparr>) st"
  by (simp add: record_step_main_def item_step_main_unknown Let_def split: option.splits)

lemma accumulate_part_unknown_seller:
  "seller_id r \<notin> s_id ` set ss \<Longrightarrow>
   accumulate_part cr ps (rsa @ r # rsb) (init_stats ss) = accumulate_part cr ps (rsa @ rsb) (init_stats ss)"
  by (simp add: accumulate_part_def record_step_part_unknown init_stats_index_None)

lemma accumulate_main_unknown_seller:
  "seller_id r \<notin> s_id ` set ss \<Longrightarrow>
   accumulate_main cr ps (rsa @ r # rsb) (init_stats ss) = accumulate_main cr ps (rsa @ rsb) (init_stats ss)"
  by (simp add: accumulate_main_def record_step_main_unknown init_stats_index_None)

lemma accumulate_part_unknown_sku:
  "i_sku it \<notin> sku ` set ps \<Longrightarrow>
   accumulate_part cr ps (rsa @ q\<lparr>items := xs @ it # ys\<rparr> # rsb) st
     = accumulate_part cr ps (rsa @ q\<lparr>items := xs @ ys\<rparr> # rsb) st"
  by (simp add: accumulate_part_def record_step_part_items productIndex_None)

lemma accumulate_main_unknown_sku:
  "i_sku it \<notin> sku ` set ps \<Longrightarrow>
   accumulate_main cr ps (rsa @ q\<lparr>items := xs @ it # ys\<rparr> # rsb) st
     = accumulate_main cr ps (rsa @ q\<lparr>items := xs @ ys\<rparr> # rsb) st"
  by (simp add: accumulate_main_def record_step_main_items productIndex_None)

lemma invalid_data_records:
  "rs \<noteq> [] \<Longrightarrow> rs' \<noteq> [] \<Longrightarrow>
   invalid_data (Some \<lparr>sellers = S, products = P, purchase_records = Array rs\<rparr>)
     = invalid_data (Some \<lparr>sellers = S, products = P, purchase_records = Array rs'\<rparr>)"
  by (simp add: invalid_data_def)

lemma analyze_part_records:
  assumes "rs \<noteq> []" and "rs' \<noteq> []"
    and "\<And>cr. accumulate_part cr (elems P) rs (init_stats (elems S))
            = accumulate_part cr (elems P) rs' (init_stats (elems S))"
  shows "analyzeSalesData_part (Some \<lparr>sellers = S, products = P, purchase_records = Array rs\<rparr>) opts
       = analyzeSalesData_part (Some \<lparr>sellers = S, products = P, purchase_records = Array rs'\<rparr>) opts"
  unfolding analyzeSalesData_part_def invalid_data_records [OF assms(1,2), of S P]
  by (simp add: assms(3) split: js_member.splits)

lemma analyze_main_records:
  assumes "rs \<noteq> []" and "rs' \<noteq> []"
    and "\<And>cr. accumulate_main cr (elems P) rs (init_stats (elems S))
            = accumulate_main cr (elems P) rs' (init_stats (elems S))"
  shows "analyzeSalesData_main (Some \<lparr>sellers = S, products = P, purchase_records = Array rs\<rparr>) opts
       = analyzeSalesData_main (Some \<lparr>sellers = S, products = P, purchase_records = Array rs'\<rparr>) opts"
  unfolding analyzeSalesData_main_def invalid_data_records [OF assms(1,2), of S P]
  by (simp add: assms(3) split: js_member.splits)

lemma inherited_effect_unknown_seller:
  assumes "js_get (sellerIndex (init_stats ss)) (seller_id r) = Missing"
  shows "inherited_effect (Some \<lparr>sellers = Array ss, products = P, purchase_records = Array (rsa @ r # rsb)\<rparr>)
       = inherited_effect (Some \<lparr>sellers = Array ss, products = P, purchase_records = Array (rsa @ rsb)\<rparr>)"
  using record_effect_missing [OF assms] by (simp add: inherited_effect_def find_skip)

lemma inherited_effect_unknown_sku:
  assumes "js_get (productIndex ps) (i_sku it) = Missing"
  shows "inherited_effect (Some \<lparr>sellers = S, products = Array ps,
            purchase_records = Array (qsa @ q\<lparr>items := xs @ it # ys\<rparr> # qsb)\<rparr>)
       = inherited_effect (Some \<lparr>sellers = S, products = Array ps,
            purchase_records = Array (qsa @ q\<lparr>items := xs @ ys\<rparr> # qsb)\<rparr>)"
  by (simp add: inherited_effect_def record_effect_items [OF assms])

lemma analyze_part_js_cong:
  "analyzeSalesData_part dat opts = analyzeSalesData_part dat' opts \<Longrightarrow>
   inherited_effect dat = inherited_effect dat' \<Longrightarrow>
   analyzeSalesData_part_js dat opts = analyzeSalesData_part_js dat' opts"
  by (simp add: analyzeSalesData_part_js_def split: sum.splits)

lemma analyze_main_js_cong:
  "analyzeSalesData_main dat opts = analyzeSalesData_main dat' opts \<Longrightarrow>
   inherited_effect dat = inherited_effect dat' \<Longrightarrow>
   analyzeSalesData_main_js dat opts = analyzeSalesData_main_js dat' opts"
  by (simp add: analyzeSalesData_main_js_def split: sum.splits)

text \<open>
  The gaps that both files skip. A purchase record whose seller lookup is
  \<^verbatim>\<open>undefined\<close> leaves every accumulator as it was, and the outcome of the call is the
  outcome for the input without that record. A line item whose product lookup is
  \<^verbatim>\<open>undefined\<close> leaves the accumulator and the subtotal as they were; the items before it
  and after it are processed as they are without it, a matched one among them changing
  profit, tallies and subtotal as \<open>item_step_part\<close> and \<open>item_step_main\<close> say; the outcome
  of the call is the outcome for the input without that item. An input with non-empty
  collections in which no record and no item carries the name of a member of
  \<^verbatim>\<open>Object.prototype\<close> yields a report, whatever its gaps.
\<close>

theorem undefined_lookups_skipped:
  assumes "js_get (sellerIndex (init_stats ss)) (seller_id r) = Missing"
    and "js_get (productIndex ps) (i_sku it) = Missing"
    and "rsa @ rsb \<noteq> []"
  shows
   "record_step_part cr (productIndex ps') (sellerIndex (init_stats ss)) r st = st
    \<and> record_step_main cr (productIndex ps') (sellerIndex (init_stats ss)) r st = st
    \<and> analyzeSalesData_part_js
        (Some \<lparr>sellers = Array ss, products = P, purchase_records = Array (rsa @ r # rsb)\<rparr>) opts
      = analyzeSalesData_part_js
        (Some \<lparr>sellers = Array ss, products = P, purchase_records = Array (rsa @ rsb)\<rparr>) opts
    \<and> analyzeSalesData_main_js
        (Some \<lparr>sellers = Array ss, products = P, purchase_records = Array (rsa @ r # rsb)\<rparr>) opts
      = analyzeSalesData_main_js
        (Some \<lparr>sellers = Array ss, products = P, purchase_records = Array (rsa @ rsb)\<rparr>) opts
    \<and> item_step_part cr (productIndex ps) it acc = acc
    \<and> item_step_main cr (productIndex ps) it acc = acc
    \<and> fold (item_step_part cr (productIndex ps)) (xs @ it # ys) acc
      = fold (item_step_part cr (productIndex ps)) ys (fold (item_step_part cr (productIndex ps)) xs acc)
    \<and> fold (item_step_main cr (productIndex ps)) (xs @ it # ys) acc
      = fold (item_step_main cr (productIndex ps)) ys (fold (item_step_main cr (productIndex ps)) xs acc)
    \<and> (js_get (productIndex ps) (i_sku other) = Own product \<longrightarrow>
         item_step_part cr (productIndex ps) other (seller, sub) =
           (seller\<lparr>profit := round2 (profit seller
                        + (cr other product - purchase_price product * quantity other)),
                   products_sold := sold_part (i_sku other) (quantity other) (products_sold seller)\<rparr>,
            round2 (sub + cr other product))
         \<and> item_step_main cr (productIndex ps) other (seller, sub) =
           (seller\<lparr>profit := profit seller
                        + (cr other product - purchase_price product * quantity other),
                   products_sold := sold_main (i_sku other) (quantity other) (products_sold seller)\<rparr>,
            sub + round2 (cr other product)))
    \<and> analyzeSalesData_part_js
        (Some \<lparr>sellers = S, products = Array ps,
               purchase_records = Array (qsa @ q\<lparr>items := xs @ it # ys\<rparr> # qsb)\<rparr>) opts
      = analyzeSalesData_part_js
        (Some \<lparr>sellers = S, products = Array ps,
               purchase_records = Array (qsa @ q\<lparr>items := xs @ ys\<rparr> # qsb)\<rparr>) opts
    \<and> analyzeSalesData_main_js
        (Some \<lparr>sellers = S, products = Array ps,
               purchase_records = Array (qsa @ q\<lparr>items := xs @ it # ys\<rparr> # qsb)\<rparr>) opts
      = analyzeSalesData_main_js
        (Some \<lparr>sellers = S, products = Array ps,
               purchase_records = Array (qsa @ q\<lparr>items := xs @ ys\<rparr> # qsb)\<rparr>) opts
    \<and> (plain_keys (w # ws) \<longrightarrow>
         (\<exists>reports. analyzeSalesData_part_js
            (Some \<lparr>sellers = Array (s # ss'), products = Array (p # ps''),
                   purchase_records = Array (w # ws)\<rparr>)
            (OptObject (Function cr) (Function cb)) = Returns reports)
         \<and> (\<exists>reports. analyzeSalesData_main_js
            (Some \<lparr>sellers = Array (s # ss'), products = Array (p # ps''),
                   purchase_records = Array (w # ws)\<rparr>)
            (OptObject (Function cr) (Function cb)) = Returns reports))"
proof -
  have us: "seller_id r \<notin> s_id ` set ss"
    using assms(1) by (simp add: js_get_Missing init_stats_index_None)
  have up: "i_sku it \<notin> sku ` set ps"
    using assms(2) by (simp add: js_get_Missing productIndex_None)
  have a: "record_step_part cr (productIndex ps') (sellerIndex (init_stats ss)) r st = st"
    "record_step_main cr (productIndex ps') (sellerIndex (init_stats ss)) r st = st"
    using us by (simp_all add: record_step_part_unknown record_step_main_unknown init_stats_index_None)
  have b: "analyzeSalesData_part_js
        (Some \<lparr>sellers = Array ss, products = P, purchase_records = Array (rsa @ r # rsb)\<rparr>) opts
      = analyzeSalesData_part_js
        (Some \<lparr>sellers = Array ss, products = P, purchase_records = Array (rsa @ rsb)\<rparr>) opts"
  proof (rule analyze_part_js_cong)
    show "analyzeSalesData_part
        (Some \<lparr>sellers = Array ss, products = P, purchase_records = Array (rsa @ r # rsb)\<rparr>) opts
      = analyzeSalesData_part
        (Some \<lparr>sellers = Array ss, products = P, purchase_records = Array (rsa @ rsb)\<rparr>) opts"
      using us assms(3) by (intro analyze_part_records) (simp_all add: accumulate_part_unknown_seller)
  qed (rule inherited_effect_unknown_seller [OF assms(1)])
  have c: "analyzeSalesData_main_js
        (Some \<lparr>sellers = Array ss, products = P, purchase_records = Array (rsa @ r # rsb)\<rparr>) opts
      = analyzeSalesData_main_js
        (Some \<lparr>sellers = Array ss, products = P, purchase_records = Array (rsa @ rsb)\<rparr>) opts"
  proof (rule analyze_main_js_cong)
    show "analyzeSalesData_main
        (Some \<lparr>sellers = Array ss, products = P, purchase_records = Array (rsa @ r # rsb)\<rparr>) opts
      = analyzeSalesData_main
        (Some \<lparr>sellers = Array ss, products = P, purchase_records = Array (rsa @ rsb)\<rparr>) opts"
      using us assms(3) by (intro analyze_main_records) (simp_all add: accumulate_main_unknown_seller)
  qed (rule inherited_effect_unknown_seller [OF assms(1)])
  have n: "productIndex ps (i_sku it) = None"
    using up by (simp add: productIndex_None)
  have i: "item_step_part cr (productIndex ps) it acc = acc"
    "item_step_main cr (productIndex ps) it acc = acc" for acc
    using n by (simp_all add: item_step_part_unknown item_step_main_unknown)
  have f: "fold (item_step_part cr (productIndex ps)) (xs @ it # ys) acc
      = fold (item_step_part cr (productIndex ps)) ys (fold (item_step_part cr (productIndex ps)) xs acc)"
    "fold (item_step_main cr (productIndex ps)) (xs @ it # ys) acc
      = fold (item_step_main cr (productIndex ps)) ys (fold (item_step_main cr (productIndex ps)) xs acc)"
    by (simp_all add: i)
  have m: "js_get (productIndex ps) (i_sku other) = Own product \<longrightarrow>
         item_step_part cr (productIndex ps) other (seller, sub) =
           (seller\<lparr>profit := round2 (profit seller
                        + (cr other product - purchase_price product * quantity other)),
                   products_sold := sold_part (i_sku other) (quantity other) (products_sold seller)\<rparr>,
            round2 (sub + cr other product))
         \<and> item_step_main cr (productIndex ps) other (seller, sub) =
           (seller\<lparr>profit := profit seller
                        + (cr other product - purchase_price product * quantity other),
                   products_sold := sold_main (i_sku other) (quantity other) (products_sold seller)\<rparr>,
            sub + round2 (cr other product))"
    by (simp add: js_get_Own item_step_part_matched item_step_main_matched)
  have d: "analyzeSalesData_part_js
        (Some \<lparr>sellers = S, products = Array ps,
               purchase_records = Array (qsa @ q\<lparr>items := xs @ it # ys\<rparr> # qsb)\<rparr>) opts
      = analyzeSalesData_part_js
        (Some \<lparr>sellers = S, products = Array ps,
               purchase_records = Array (qsa @ q\<lparr>items := xs @ ys\<rparr> # qsb)\<rparr>) opts"
  proof (rule analyze_part_js_cong)
    show "analyzeSalesData_part
        (Some \<lparr>sellers = S, products = Array ps,
               purchase_records = Array (qsa @ q\<lparr>items := xs @ it # ys\<rparr> # qsb)\<rparr>) opts
      = analyzeSalesData_part
        (Some \<lparr>sellers = S, products = Array ps,
               purchase_records = Array (qsa @ q\<lparr>items := xs @ ys\<rparr> # qsb)\<rparr>) opts"
      using up by (intro analyze_part_records) (simp_all add: accumulate_part_unknown_sku)
  qed (rule inherited_effect_unknown_sku [OF assms(2)])
  have e: "analyzeSalesData_main_js
        (Some \<lparr>sellers = S, products = Array ps,
               purchase_records = Array (qsa @ q\<lparr>items := xs @ it # ys\<rparr> # qsb)\<rparr>) opts
      = analyzeSalesData_main_js
        (Some \<lparr>sellers = S, products = Array ps,
               purchase_records = Array (qsa @ q\<lparr>items := xs @ ys\<rparr> # qsb)\<rparr>) opts"
  proof (rule analyze_main_js_cong)
    show "analyzeSalesData_main
        (Some \<lparr>sellers = S, products = Array ps,
               purchase_records = Array (qsa @ q\<lparr>items := xs @ it # ys\<rparr> # qsb)\<rparr>) opts
      = analyzeSalesData_main
        (Some \<lparr>sellers = S, products = Array ps,
               purchase_records = Array (qsa @ q\<lparr>items := xs @ ys\<rparr> # qsb)\<rparr>) opts"
      using up by (intro analyze_main_records) (simp_all add: accumulate_main_unknown_sku)
  qed (rule inherited_effect_unknown_sku [OF assms(2)])
  have g: "plain_keys (w # ws) \<longrightarrow>
         (\<exists>reports. analyzeSalesData_part_js
            (Some \<lparr>sellers = Array (s # ss'), products = Array (p # ps''),
                   purchase_records = Array (w # ws)\<rparr>)
            (OptObject (Function cr) (Function cb)) = Returns reports)
         \<and> (\<exists>reports. analyzeSalesData_main_js
            (Some \<lparr>sellers = Array (s # ss'), products = Array (p # ps''),
                   purchase_records = Array (w # ws)\<rparr>)
            (OptObject (Function cr) (Function cb)) = Returns reports)"
    by (simp add: analyze_part_js_plain analyze_main_js_plain
        analyzeSalesData_part_def analyzeSalesData_main_def invalid_data_def)
  from a b c i f m d e g show ?thesis by blast
qed

theorem undefined_lookups_skipped_witness:
  "js_get (sellerIndex (init_stats (elems (sellers gap_input)))) ''s7'' = Missing
   \<and> js_get (productIndex (elems (products gap_input))) ''SKU_9'' = Missing
   \<and> analyzeSalesData_part_js (Some gap_input) default_options
       = analyzeSalesData_part_js lone_seller_data default_options
   \<and> analyzeSalesData_main_js (Some gap_input) default_options
       = analyzeSalesData_main_js lone_seller_data default_options
   \<and> analyzeSalesData_part_js lone_seller_data default_options =
       Returns [\<lparr>r_seller_id = ''s1'', r_name = ''Ann Lee'', r_revenue = 200, r_profit = 100,
                  r_sales_count = 1, r_top_products = JsArray [(''SKU_1'', 2)], r_bonus = 15\<rparr>]
   \<and> analyzeSalesData_main_js lone_seller_data default_options =
       Returns [\<lparr>r_seller_id = ''s1'', r_name = ''Ann Lee'', r_revenue = 200, r_profit = 100,
                  r_sales_count = 1, r_top_products = JsNumber NaN, r_bonus = 15\<rparr>]"
proof -
  let ?s1 = "\<lparr>s_id = ''s1'', first_name = ''Ann'', last_name = ''Lee''\<rparr>"
  let ?p1 = "\<lparr>sku = ''SKU_1'', purchase_price = 50\<rparr>"
  let ?i9 = "\<lparr>i_sku = ''SKU_9'', quantity = 3, sale_price = 10, discount = 0\<rparr>"
  let ?i1 = "\<lparr>i_sku = ''SKU_1'', quantity = 2, sale_price = 100, discount = 0\<rparr>"
  let ?r7 = "\<lparr>seller_id = ''s7'',
               items = [\<lparr>i_sku = ''SKU_1'', quantity = 5, sale_price = 100, discount = 0\<rparr>]\<rparr>"
  let ?q = "\<lparr>seller_id = ''s1'', items = []\<rparr>"
  have h: "js_get (sellerIndex (init_stats [?s1])) (seller_id ?r7) = Missing"
    "js_get (productIndex [?p1]) (i_sku ?i9) = Missing"
    "[?q\<lparr>items := [] @ ?i9 # [?i1]\<rparr>] @ [] \<noteq> []"
    unfolding js_get_Missing object_prototype_keys_def by code_simp+
  note t = undefined_lookups_skipped [OF h, where P = "Array [?p1]" and S = "Array [?s1]"
      and opts = default_options and qsa = "[]" and qsb = "[]" and q = ?q
      and xs = "[]" and ys = "[?i1]"]
  from t have g:
    "analyzeSalesData_part_js (Some gap_input) default_options
       = analyzeSalesData_part_js lone_seller_data default_options"
    "analyzeSalesData_main_js (Some gap_input) default_options
       = analyzeSalesData_main_js lone_seller_data default_options"
    by (simp_all add: gap_input_def lone_seller_data_def)
  have k: "plain_keys (elems (purchase_records (the lone_seller_data)))"
    unfolding lone_seller_data_def plain_keys_def plain_items_def object_prototype_keys_def
    by simp
  have p: "analyzeSalesData_part lone_seller_data default_options =
       Inr [\<lparr>r_seller_id = ''s1'', r_name = ''Ann Lee'', r_revenue = 200, r_profit = 100,
             r_sales_count = 1, r_top_products = JsArray [(''SKU_1'', 2)], r_bonus = 15\<rparr>]"
    unfolding lone_seller_data_def default_options_def by code_simp
  have m: "analyzeSalesData_main lone_seller_data default_options =
       Inr [\<lparr>r_seller_id = ''s1'', r_name = ''Ann Lee'', r_revenue = 200, r_profit = 100,
             r_sales_count = 1, r_top_products = JsNumber NaN, r_bonus = 15\<rparr>]"
    unfolding lone_seller_data_def default_options_def by code_simp
  have l: "lone_seller_data = Some (the lone_seller_data)"
    by (simp add: lone_seller_data_def)
  have r: "analyzeSalesData_part_js lone_seller_data default_options =
       Returns [\<lparr>r_seller_id = ''s1'', r_name = ''Ann Lee'', r_revenue = 200, r_profit = 100,
                  r_sales_count = 1, r_top_products = JsArray [(''SKU_1'', 2)], r_bonus = 15\<rparr>]"
    "analyzeSalesData_main_js lone_seller_data default_options =
       Returns [\<lparr>r_seller_id = ''s1'', r_name = ''Ann Lee'', r_revenue = 200, r_profit = 100,
                  r_sales_count = 1, r_top_products = JsNumber NaN, r_bonus = 15\<rparr>]"
    using analyze_part_js_plain [OF k, of default_options]
      analyze_main_js_plain [OF k, of default_options] p m
    by (simp_all add: l [symmetric])
  have j: "js_get (sellerIndex (init_stats (elems (sellers gap_input)))) ''s7'' = Missing"
    "js_get (productIndex (elems (products gap_input))) ''SKU_9'' = Missing"
    using h(1,2) by (simp_all add: gap_input_def)
  from g r j show ?thesis by simp
qed

text \<open>
  Claim C6: a purchase record whose seller identifier matches no seller contributes
  nothing, a line item whose SKU matches no product is skipped alone, and neither gap is
  fatal. This fails in both files for an identifier that names a member of
  \<^verbatim>\<open>Object.prototype\<close>. In \<open>inherited_seller_input\<close> the second purchase record has the
  seller identifier \<^verbatim>\<open>toString\<close>, which matches no seller; the lookup finds the
  inherited function, \<^verbatim>\<open>if (!seller) return\<close> does not return, and at the line item of
  the record the call ends with a \<^verbatim>\<open>TypeError\<close>: the gap is fatal. In
  \<open>inherited_sku_input\<close> a line item has the SKU \<^verbatim>\<open>constructor\<close>, which matches no
  product; the lookup finds the inherited function, the item is not skipped, and the
  report leaves the typed embedding (the profit of the seller is \<^verbatim>\<open>NaN\<close>). Without the
  record, and without the item, both files return the report of \<open>lone_seller_data\<close>.
\<close>

theorem inherited_keys_not_skipped:
  "''toString'' \<notin> s_id ` set (elems (sellers inherited_seller_input))
   \<and> js_get (sellerIndex (init_stats (elems (sellers inherited_seller_input)))) ''toString''
       = Inherited
   \<and> analyzeSalesData_part_js (Some inherited_seller_input) default_options = ThrowsTypeError
   \<and> analyzeSalesData_main_js (Some inherited_seller_input) default_options = ThrowsTypeError
   \<and> ''constructor'' \<notin> sku ` set (elems (products inherited_sku_input))
   \<and> js_get (productIndex (elems (products inherited_sku_input))) ''constructor'' = Inherited
   \<and> analyzeSalesData_part_js (Some inherited_sku_input) default_options = OutsideTypes
   \<and> analyzeSalesData_main_js (Some inherited_sku_input) default_options = OutsideTypes
   \<and> analyzeSalesData_part_js lone_seller_data default_options =
       Returns [\<lparr>r_seller_id = ''s1'', r_name = ''Ann Lee'', r_revenue = 200, r_profit = 100,
                  r_sales_count = 1, r_top_products = JsArray [(''SKU_1'', 2)], r_bonus = 15\<rparr>]
   \<and> analyzeSalesData_main_js lone_seller_data default_options =
       Returns [\<lparr>r_seller_id = ''s1'', r_name = ''Ann Lee'', r_revenue = 200, r_profit = 100,
                  r_sales_count = 1, r_top_products = JsNumber NaN, r_bonus = 15\<rparr>]"
proof -
  have a: "''toString'' \<notin> s_id ` set (elems (sellers inherited_seller_input))"
    "''constructor'' \<notin> sku ` set (elems (products inherited_sku_input))"
    by (simp_all add: inherited_seller_input_def inherited_sku_input_def)
  have b: "js_get (sellerIndex (init_stats (elems (sellers inherited_seller_input)))) ''toString''
       = Inherited"
    "js_get (productIndex (elems (products inherited_sku_input))) ''constructor'' = Inherited"
    unfolding inherited_seller_input_def inherited_sku_input_def by code_simp+
  have c: "analyzeSalesData_part_js (Some inherited_seller_input) default_options = ThrowsTypeError"
    "analyzeSalesData_main_js (Some inherited_seller_input) default_options = ThrowsTypeError"
    unfolding inherited_seller_input_def default_options_def by code_simp+
  have d: "analyzeSalesData_part_js (Some inherited_sku_input) default_options = OutsideTypes"
    "analyzeSalesData_main_js (Some inherited_sku_input) default_options = OutsideTypes"
    unfolding inherited_sku_input_def default_options_def by code_simp+
  have e: "analyzeSalesData_part_js lone_seller_data default_options =
       Returns [\<lparr>r_seller_id = ''s1'', r_name = ''Ann Lee'', r_revenue = 200, r_profit = 100,
                  r_sales_count = 1, r_top_products = JsArray [(''SKU_1'', 2)], r_bonus = 15\<rparr>]"
    "analyzeSalesData_main_js lone_seller_data default_options =
       Returns [\<lparr>r_seller_id = ''s1'', r_name = ''Ann Lee'', r_revenue = 200, r_profit = 100,
                  r_sales_count = 1, r_top_products = JsNumber NaN, r_bonus = 15\<rparr>]"
    unfolding lone_seller_data_def default_options_def by code_simp+
  from a b c d e show ?thesis by simp
qed

section \<open>Top products\<close>

lemma mset_entries [simp]: "mset (entries obj) = mset obj"
  by (simp add: entries_def)

lemma top_of_length: "length (top_of sold) \<le> 10"
  by (simp add: top_of_def)

lemma top_of_sorted: "sorted_wrt (\<lambda>x y. y \<le> x) (map snd (top_of sold))"
proof -
  have "sorted (map (\<lambda>(k, q). - q) (sort_key (\<lambda>(k, q). - q) (entries sold)))"
    by (rule sorted_sort_key)
  then have "sorted_wrt (\<lambda>a b. (case a of (k, q) \<Rightarrow> - q) \<le> (case b of (k, q) \<Rightarrow> - q))
               (sort_key (\<lambda>(k, q). - q) (entries sold))"
    by (simp add: sorted_map)
  then have "sorted_wrt (\<lambda>a b. snd b \<le> snd a) (sort_key (\<lambda>(k, q). - q) (entries sold))"
    by (rule sorted_wrt_mono_rel [rotated]) (simp add: case_prod_beta)
  then have "sorted_wrt (\<lambda>a b. snd b \<le> snd a) (top_of sold)"
    unfolding top_of_def by (rule sorted_wrt_take)
  then show ?thesis by (simp add: sorted_wrt_map)
qed

lemma top_of_mset: "mset (top_of sold) \<subseteq># mset sold"
proof -
  have "mset (take 10 (sort_key (\<lambda>(k, q). - q) (entries sold)))
          \<subseteq># mset (sort_key (\<lambda>(k, q). - q) (entries sold))"
    by (metis append_take_drop_id mset_append mset_subset_eq_add_left)
  then show ?thesis by (simp add: top_of_def)
qed

lemma top_list_of_top_of: "top_list_of sold (JsArray (top_of sold))"
  unfolding top_list_of_def
  using top_of_length [of sold] top_of_sorted [of sold] top_of_mset [of sold]
  by (simp add: top_of_def)

lemma reports_part_top:
  "list_all2 (\<lambda>r s. r_seller_id r = a_id s \<and> top_list_of (products_sold s) (r_top_products r))
     (map report_part (rank_part cb xs)) xs"
  unfolding rank_part_map list_all2_conv_all_nth
  by (simp add: report_part_def stats.defs top_list_of_top_of)

text \<open>
  In \<^verbatim>\<open>part_000\<close> every report carries such a list, made from the tallies of its
  seller.
\<close>

theorem top_products_part:
  assumes "\<not> spec_invalid_input (Some d)"
  shows "\<exists>reports. analyzeSalesData_part (Some d) (OptObject (Function cr) (Function cb)) = Inr reports
     \<and> list_all2 (\<lambda>r s. r_seller_id r = a_id s \<and> top_list_of (products_sold s) (r_top_products r))
          reports
          (sort_by_profit (accumulate_part cr (elems (products d)) (elems (purchase_records d))
             (init_stats (elems (sellers d)))))"
  using assms reports_part_top by (simp add: analyze_part_valid invalid_data_spec)

lemma reports_main_top:
  "list_all (\<lambda>r. r_top_products r = JsNumber NaN \<or> r_top_products r = JsNumber (Num 0))
     (map report_main (rank_main cb xs))"
  unfolding rank_main_map list_all_length
  by (simp add: report_main_def stats.defs unary_plus_array_def)

text \<open>
  Claim C4. In \<^verbatim>\<open>src/main.js\<close> the report is built with
  \<^verbatim>\<open>top_products: +seller.top_products\<close>. The field is then a number and not a
  list: for the lone seller, who sold one product, it is \<^verbatim>\<open>NaN\<close>, and for every
  input it is \<^verbatim>\<open>NaN\<close> or 0.
\<close>

theorem top_products_main_number:
  "analyzeSalesData_main lone_seller_data default_options =
     Inr [\<lparr>r_seller_id = ''s1'', r_name = ''Ann Lee'', r_revenue = 200, r_profit = 100,
           r_sales_count = 1, r_top_products = JsNumber NaN, r_bonus = 15\<rparr>]
   \<and> list_all (\<lambda>r. r_top_products r = JsNumber NaN \<or> r_top_products r = JsNumber (Num 0))
        (map report_main (rank_main cb xs))"
proof -
  have "analyzeSalesData_main lone_seller_data default_options =
     Inr [\<lparr>r_seller_id = ''s1'', r_name = ''Ann Lee'', r_revenue = 200, r_profit = 100,
           r_sales_count = 1, r_top_products = JsNumber NaN, r_bonus = 15\<rparr>]"
    unfolding lone_seller_data_def default_options_def by code_simp
  then show ?thesis using reports_main_top by simp
qed

section \<open>The data is not mutated\<close>

lemma update_stats_length [simp]: "length (update_stats a f h) = length h"
  by (simp add: update_stats_def split: option.splits)









lemma sort_store_length [simp]: "length (sort_store arr h) = length h"
  by (simp add: sort_store_def split: option.splits)


lemma rank_step_store_length [simp]:
  "length (rank_step_store v cb ranking i h) = length h"
  by (simp add: rank_step_store_def split: option.splits)



lemma array_at_append:
  "array_at (h @ cs @ [ArrayCell xs]) (length h + length cs) = Some xs"
  by (simp add: array_at_def rd_def nth_append)


text \<open>
  On the store that holds \<open>lone_seller_data\<close> the call appends the accumulator, the
  array \<^verbatim>\<open>sellerStats\<close>, the report and the result array, and the report is the one
  of the first embedding.
\<close>

lemma lone_seller_store_result:
  "analyzeSalesData_store variant_part lone_seller_store (Some 0) default_options =
     (Returned 12,
      lone_seller_store @
      [RankedCell \<lparr>a_id = ''s1'', a_name = ''Ann Lee'', revenue = 200, profit = 100,
          sales_count = 1, products_sold = [(''SKU_1'', 2)], bonus = 15,
          top_products = [(''SKU_1'', 2)]\<rparr>,
       ArrayCell [9],
       ReportCell \<lparr>r_seller_id = ''s1'', r_name = ''Ann Lee'', r_revenue = 200, r_profit = 100,
          r_sales_count = 1, r_top_products = JsArray [(''SKU_1'', 2)], r_bonus = 15\<rparr>,
       ArrayCell [11]])"
  unfolding lone_seller_store_def default_options_def variant_part_def by code_simp

section \<open>The store embedding returns the reports of the first embedding\<close>

lemma item_step_v_part: "item_step_v variant_part = item_step_part"
  by (intro ext) (simp add: item_step_v_def item_step_part_def variant_part_def Let_def split: option.splits)

lemma item_step_v_main: "item_step_v variant_main = item_step_main"
  by (intro ext) (simp add: item_step_v_def item_step_main_def variant_main_def Let_def split: option.splits)

lemma variant_part_simps [simp]:
  "add_profit variant_part t x = round2 (t + x)"
  "add_subtotal variant_part t x = round2 (t + x)"
  "add_revenue variant_part t x = round2 (t + x)"
  "add_sold variant_part = sold_part"
  "bonus_value variant_part = round2"
  "top_value variant_part = JsArray"
  by (simp_all add: variant_part_def)

lemma variant_main_simps [simp]:
  "add_profit variant_main t x = t + x"
  "add_subtotal variant_main t x = t + round2 x"
  "add_revenue variant_main t x = t + x"
  "add_sold variant_main = sold_main"
  "bonus_value variant_main x = x"
  "top_value variant_main l = JsNumber (unary_plus_array l)"
  by (simp_all add: variant_main_def)

lemma record_step_v_part: "record_step_v variant_part = record_step_part"
  by (intro ext)
     (simp add: record_step_v_def record_step_part_def item_step_v_part Let_def
        split: option.splits)

lemma record_step_v_main: "record_step_v variant_main = record_step_main"
  by (intro ext)
     (simp add: record_step_v_def record_step_main_def item_step_v_main Let_def
        split: option.splits)

lemma reports_v_part:
  "reports_v variant_part cr cb ss ps rs =
     map report_part (rank_part cb (sort_by_profit (accumulate_part cr ps rs (init_stats ss))))"
  unfolding reports_v_def record_step_v_part accumulate_part_def rank_part_map rank_v_def
  by (simp add: report_of_def report_part_def stats.defs)

lemma reports_v_main:
  "reports_v variant_main cr cb ss ps rs =
     map report_main (rank_main cb (sort_by_profit (accumulate_main cr ps rs (init_stats ss))))"
  unfolding reports_v_def record_step_v_main accumulate_main_def rank_main_map rank_v_def
  by (simp add: report_of_def report_main_def stats.defs)

lemma read_all_Some:
  "(read_all f as = Some xs) = list_all2 (\<lambda>a x. f a = Some x) as xs"
proof (induction as arbitrary: xs)
  case Nil
  then show ?case by auto
next
  case (Cons a as)
  show ?case
    by (cases xs; cases "f a"; cases "read_all f as") (auto simp: Cons.IH [symmetric])
qed

lemma rd_Some_less: "rd h a = Some c \<Longrightarrow> a < length h"
  by (simp add: rd_def split: if_splits)

lemma rd_with_stats_old: "a < length h \<Longrightarrow> rd (with_stats h st arr) a = rd h a"
  by (simp add: rd_def with_stats_def nth_append)

lemma rd_with_stats_new:
  "i < length st \<Longrightarrow> rd (with_stats h st arr) (length h + i) = Some (StatsCell (st ! i))"
  by (simp add: rd_def with_stats_def nth_append)

lemma array_at_Some: "(array_at h a = Some xs) = (rd h a = Some (ArrayCell xs))"
  by (auto simp: array_at_def split: option.splits cell.splits)

lemma rd_with_stats_old_Some: "rd h a = Some c \<Longrightarrow> rd (with_stats h st arr) a = Some c"
  using rd_Some_less [of h a c] by (simp add: rd_with_stats_old)

lemma array_at_with_stats_old:
  "array_at h a = Some xs \<Longrightarrow> array_at (with_stats h st arr) a = Some xs"
  by (simp add: array_at_Some rd_with_stats_old_Some)

lemma array_at_with_stats_arr:
  "array_at (with_stats h st arr) (length h + length st) = Some arr"
  by (simp add: array_at_def rd_def with_stats_def nth_append)

lemma stats_at_with_stats:
  "i < length st \<Longrightarrow> stats_at (with_stats h st arr) (length h + i) = Some (st ! i)"
  by (simp add: stats_at_def rd_with_stats_new)

lemma update_with_stats:
  "i < length st \<Longrightarrow>
   update_stats (length h + i) f (with_stats h st arr) = with_stats h (st[i := f (st ! i)]) arr"
  by (simp add: update_stats_def stats_at_with_stats)
     (simp add: with_stats_def list_update_append map_update)

lemma read_item_Some: "(read_item h a = Some it) = (rd h a = Some (ItemCell it))"
  by (auto simp: read_item_def split: option.splits cell.splits)

lemma read_product_Some: "(read_product h a = Some p) = (rd h a = Some (ProductCell p))"
  by (auto simp: read_product_def split: option.splits cell.splits)

lemma read_item_old:
  "read_item h a = Some it \<Longrightarrow> rd (with_stats h st arr) a = Some (ItemCell it)"
  by (simp add: read_item_Some rd_with_stats_old_Some)

lemma read_product_old:
  "read_product h a = Some p \<Longrightarrow> rd (with_stats h st arr) a = Some (ProductCell p)"
  by (simp add: read_product_Some rd_with_stats_old_Some)

lemma item_sim:
  assumes it: "read_item h iref = Some item"
    and pI: "\<And>k. rel_option (\<lambda>pa p. read_product h pa = Some p) (pIndexS k) (pidx k)"
    and i: "i < length st"
  shows "item_step_store v cr pIndexS (length h + i) iref (with_stats h st arr, sub) =
         (with_stats h (st[i := fst (item_step_v v cr pidx item (st ! i, sub))]) arr,
          snd (item_step_v v cr pidx item (st ! i, sub)))"
proof (cases "pidx (i_sku item)")
  case None
  then have "pIndexS (i_sku item) = None" using pI [of "i_sku item"] by (cases "pIndexS (i_sku item)") auto
  then show ?thesis using None
    by (simp add: item_step_store_def item_step_v_def read_item_old [OF it])
next
  case (Some p)
  then obtain pa where pa: "pIndexS (i_sku item) = Some pa" and rp: "read_product h pa = Some p"
    using pI [of "i_sku item"] by (cases "pIndexS (i_sku item)") auto
  show ?thesis using Some pa i
    by (simp add: item_step_store_def item_step_v_def read_item_old [OF it]
        read_product_old [OF rp] Let_def update_with_stats)
qed

lemma items_sim:
  assumes "list_all2 (\<lambda>a it. read_item h a = Some it) irefs its"
    and pI: "\<And>k. rel_option (\<lambda>pa p. read_product h pa = Some p) (pIndexS k) (pidx k)"
    and "i < length st"
  shows "fold (item_step_store v cr pIndexS (length h + i)) irefs (with_stats h st arr, sub) =
         (with_stats h (st[i := fst (fold (item_step_v v cr pidx) its (st ! i, sub))]) arr,
          snd (fold (item_step_v v cr pidx) its (st ! i, sub)))"
  using assms(1,3)
proof (induction irefs its arbitrary: st sub rule: list_all2_induct)
  case Nil
  then show ?case by simp
next
  case (Cons iref irefs item its)
  let ?R = "item_step_v v cr pidx item (st ! i, sub)"
  have "fold (item_step_store v cr pIndexS (length h + i)) (iref # irefs) (with_stats h st arr, sub)
      = fold (item_step_store v cr pIndexS (length h + i)) irefs
          (with_stats h (st[i := fst ?R]) arr, snd ?R)"
    using item_sim [OF Cons.hyps(1) pI Cons.prems] by simp
  also have "\<dots> = (with_stats h ((st[i := fst ?R])[i := fst (fold (item_step_v v cr pidx) its ((st[i := fst ?R]) ! i, snd ?R))]) arr,
          snd (fold (item_step_v v cr pidx) its ((st[i := fst ?R]) ! i, snd ?R)))"
    using Cons.prems by (intro Cons.IH) simp
  finally show ?case using Cons.prems by simp
qed

lemma record_sim:
  assumes r: "read_record h rref = Some r"
    and pI: "\<And>k. rel_option (\<lambda>pa p. read_product h pa = Some p) (pIndexS k) (pidx k)"
    and sI: "\<And>k. sIndexS k = map_option (\<lambda>i. length h + i) (sidx k)"
    and bound: "\<And>k i. sidx k = Some i \<Longrightarrow> i < length st"
  shows "record_step_store v cr pIndexS sIndexS rref (with_stats h st arr)
       = with_stats h (record_step_v v cr pidx sidx r st) arr"
proof -
  from r obtain iref irefs where c: "rd h rref = Some (RecordCell (seller_id r) iref)"
    and a: "array_at h iref = Some irefs"
    and its: "list_all2 (\<lambda>a it. read_item h a = Some it) irefs (items r)"
    by (auto simp: read_record_def read_all_Some split: option.splits cell.splits)
  have c': "rd (with_stats h st arr) rref = Some (RecordCell (seller_id r) iref)"
    using c rd_Some_less [OF c] by (simp add: rd_with_stats_old)
  show ?thesis
  proof (cases "sidx (seller_id r)")
    case None
    then show ?thesis using c' sI [of "seller_id r"]
      by (simp add: record_step_store_def record_step_v_def)
  next
    case (Some i)
    then have i: "i < length st" by (rule bound)
    let ?s1 = "(st ! i)\<lparr>sales_count := sales_count (st ! i) + 1\<rparr>"
    let ?st1 = "st[i := ?s1]"
    let ?R = "fold (item_step_v v cr pidx) (items r) (?s1, 0)"
    have i1: "i < length ?st1" using i by simp
    have n1: "?st1 ! i = ?s1" using i by simp
    have e1: "update_stats (length h + i) (\<lambda>s. s\<lparr>sales_count := sales_count s + 1\<rparr>)
                (with_stats h st arr) = with_stats h ?st1 arr"
      using i by (rule update_with_stats)
    have e2: "fold (item_step_store v cr pIndexS (length h + i)) irefs (with_stats h ?st1 arr, 0)
                = (with_stats h (st[i := fst ?R]) arr, snd ?R)"
      using items_sim [OF its pI i1, where v = v and cr = cr and arr = arr and sub = 0] n1 by simp
    have e3: "update_stats (length h + i) (\<lambda>s. s\<lparr>revenue := add_revenue v (revenue s) (snd ?R)\<rparr>)
                (with_stats h (st[i := fst ?R]) arr)
                = with_stats h (st[i := (fst ?R)\<lparr>revenue := add_revenue v (revenue (fst ?R)) (snd ?R)\<rparr>]) arr"
      using update_with_stats [where i = i and st = "st[i := fst ?R]" and h = h and arr = arr] i by simp
    have a': "array_at (with_stats h ?st1 arr) iref = Some irefs"
      using a by (rule array_at_with_stats_old)
    have "record_step_store v cr pIndexS sIndexS rref (with_stats h st arr)
            = with_stats h (st[i := (fst ?R)\<lparr>revenue := add_revenue v (revenue (fst ?R)) (snd ?R)\<rparr>]) arr"
      unfolding record_step_store_def Let_def
      using c' sI [of "seller_id r"] Some by (simp only: e1 a' e2 e3 option.case cell.case option.map fst_conv snd_conv)
    moreover have "record_step_v v cr pidx sidx r st
            = st[i := (fst ?R)\<lparr>revenue := add_revenue v (revenue (fst ?R)) (snd ?R)\<rparr>]"
      using Some by (simp add: record_step_v_def Let_def)
    ultimately show ?thesis by simp
  qed
qed

lemma record_step_v_length [simp]: "length (record_step_v v cr pidx sidx r st) = length st"
  by (simp add: record_step_v_def Let_def split: option.splits)

lemma records_sim:
  assumes "list_all2 (\<lambda>a r. read_record h a = Some r) rrefs rs"
    and pI: "\<And>k. rel_option (\<lambda>pa p. read_product h pa = Some p) (pIndexS k) (pidx k)"
    and sI: "\<And>k. sIndexS k = map_option (\<lambda>i. length h + i) (sidx k)"
    and bound: "\<And>k i. sidx k = Some i \<Longrightarrow> i < length st"
  shows "fold (record_step_store v cr pIndexS sIndexS) rrefs (with_stats h st arr)
       = with_stats h (fold (record_step_v v cr pidx sidx) rs st) arr"
  using assms(1,4)
proof (induction rrefs rs arbitrary: st rule: list_all2_induct)
  case Nil
  then show ?case by simp
next
  case (Cons rref rrefs r rs)
  have "record_step_store v cr pIndexS sIndexS rref (with_stats h st arr)
          = with_stats h (record_step_v v cr pidx sidx r st) arr"
    using Cons.hyps(1) pI sI Cons.prems by (rule record_sim)
  then show ?case using Cons.IH [of "record_step_v v cr pidx sidx r st"] Cons.prems by simp
qed

lemma map_filter_all_Some:
  "(\<And>x. x \<in> set xs \<Longrightarrow> f x = Some (g x)) \<Longrightarrow> List.map_filter f xs = map g xs"
  by (induction xs) simp_all

lemma map_filter_map: "List.map_filter f (map g xs) = List.map_filter (\<lambda>x. f (g x)) xs"
  by (induction xs) (simp_all split: option.splits)

lemma upt_shift: "[n..<n + m] = map (\<lambda>i. n + i) [0..<m]"
  by (induction m) simp_all

lemma fromEntries_map_value:
  "fromEntries (map (\<lambda>x. (key x, f (val x))) xs) k
     = map_option f (fromEntries (map (\<lambda>x. (key x, val x)) xs) k)"
proof -
  have "map (\<lambda>x. (key x, f (val x))) xs = map (\<lambda>(k, v). (k, f v)) (map (\<lambda>x. (key x, val x)) xs)"
    by simp
  then show ?thesis
    unfolding fromEntries_map_of rev_map [symmetric]
    by (simp only: map_of_map rev_map o_apply)
qed

lemma sellerIndex_store_with_stats:
  "sellerIndex_store (with_stats h st arr) [length h..<length h + length st] k
     = map_option (\<lambda>i. length h + i) (sellerIndex st k)"
proof -
  have "List.map_filter
          (\<lambda>a. case stats_at (with_stats h st arr) a of Some s \<Rightarrow> Some (a_id s, a) | None \<Rightarrow> None)
          (map (\<lambda>i. length h + i) [0..<length st])
        = map (\<lambda>i. (a_id (st ! i), length h + i)) [0..<length st]"
    unfolding map_filter_map by (rule map_filter_all_Some) (simp add: stats_at_with_stats)
  then show ?thesis
    unfolding sellerIndex_store_def sellerIndex_def upt_shift [of "length h"]
    using fromEntries_map_value [of "\<lambda>i. a_id (st ! i)" "\<lambda>i. length h + i" "\<lambda>i. i" "[0..<length st]" k]
    by simp
qed

lemma map_of_rel:
  "list_all2 (\<lambda>x y. fst x = fst y \<and> R (snd x) (snd y)) xs ys \<Longrightarrow>
   rel_option R (map_of xs k) (map_of ys k)"
  by (induction xs ys rule: list_all2_induct) auto

lemma productIndex_store_rel:
  assumes "list_all2 (\<lambda>a p. read_product h a = Some p) pas ps"
  shows "rel_option (\<lambda>pa p. read_product h pa = Some p)
           (productIndex_store (with_stats h st arr) pas k) (productIndex ps k)"
proof -
  have "list_all2 (\<lambda>x y. fst x = fst y \<and> read_product h (snd x) = Some (snd y))
          (List.map_filter (\<lambda>a. case rd (with_stats h st arr) a of
               Some (ProductCell p) \<Rightarrow> Some (sku p, a) | _ \<Rightarrow> None) pas)
          (map (\<lambda>p. (sku p, p)) ps)"
    using assms
    by (induction pas ps rule: list_all2_induct) (simp_all add: read_product_old)
  then have "list_all2 (\<lambda>x y. fst x = fst y \<and> read_product h (snd x) = Some (snd y))
          (rev (List.map_filter (\<lambda>a. case rd (with_stats h st arr) a of
               Some (ProductCell p) \<Rightarrow> Some (sku p, a) | _ \<Rightarrow> None) pas))
          (rev (map (\<lambda>p. (sku p, p)) ps))"
    by (simp only: list_all2_rev)
  then show ?thesis
    unfolding productIndex_store_def productIndex_def fromEntries_map_of
    by (rule map_of_rel)
qed

lemma insort_key_map:
  "insort_key f (g x) (map g xs) = map g (insort_key (\<lambda>y. f (g y)) x xs)"
  by (induction xs) simp_all

lemma sort_key_map: "sort_key f (map g xs) = map g (sort_key (\<lambda>y. f (g y)) xs)"
  by (induction xs) (simp_all add: insort_key_map)

lemma insort_key_cong_set:
  "f x = g x \<Longrightarrow> (\<And>y. y \<in> set xs \<Longrightarrow> f y = g y) \<Longrightarrow> insort_key f x xs = insort_key g x xs"
  by (induction xs) simp_all

lemma sort_key_cong_set:
  "(\<And>y. y \<in> set xs \<Longrightarrow> f y = g y) \<Longrightarrow> sort_key f xs = sort_key g xs"
proof (induction xs)
  case Nil
  then show ?case by simp
next
  case (Cons x xs)
  then have "sort_key f xs = sort_key g xs" by simp
  moreover have "insort_key f x (sort_key g xs) = insort_key g x (sort_key g xs)"
    using Cons.prems by (intro insort_key_cong_set) simp_all
  ultimately show ?case by simp
qed

lemma ranking_of_perm: "mset (ranking_of st) = mset [0..<length st]"
  by (simp add: ranking_of_def)

lemma ranking_of_props:
  "length (ranking_of st) = length st" "distinct (ranking_of st)"
  "set (ranking_of st) = {0..<length st}"
  by (simp_all add: ranking_of_def)

lemma sort_by_profit_ranking: "sort_by_profit st = map (\<lambda>i. st ! i) (ranking_of st)"
proof -
  have "sort_by_profit st = sort_key (\<lambda>s. - profit s) (map (\<lambda>i. st ! i) [0..<length st])"
    by (simp add: sort_by_profit_def map_nth)
  then show ?thesis by (simp add: sort_key_map ranking_of_def)
qed

lemma profit_at_with_stats:
  "i < length st \<Longrightarrow> profit_at (with_stats h st arr) (length h + i) = profit (st ! i)"
  by (simp add: profit_at_def stats_at_with_stats)

lemma sort_store_with_stats:
  "sort_store (length h + length st) (with_stats h st [length h..<length h + length st])
     = with_stats h st (map (\<lambda>i. length h + i) (ranking_of st))"
proof -
  let ?H = "with_stats h st [length h..<length h + length st]"
  have "sort_key (\<lambda>a. - profit_at ?H a) (map (\<lambda>i. length h + i) [0..<length st])
          = map (\<lambda>i. length h + i) (sort_key (\<lambda>i. - profit_at ?H (length h + i)) [0..<length st])"
    by (rule sort_key_map)
  also have "sort_key (\<lambda>i. - profit_at ?H (length h + i)) [0..<length st] = ranking_of st"
    unfolding ranking_of_def by (rule sort_key_cong_set) (simp add: profit_at_with_stats)
  finally have s: "sort_key (\<lambda>a. - profit_at ?H a) [length h..<length h + length st]
          = map (\<lambda>i. length h + i) (ranking_of st)"
    by (simp only: upt_shift [of "length h"])
  show ?thesis
    unfolding sort_store_def array_at_with_stats_arr option.case s
    by (simp add: with_stats_def list_update_append)
qed

lemma rd_update: "rd (h[a := c]) b = (if b = a \<and> a < length h then Some c else rd h b)"
  by (simp add: rd_def nth_list_update)

lemma rank_v_nth:
  "j < length xs \<Longrightarrow>
   rank_v v cb xs ! j = stats.extend (xs ! j)
      \<lparr>bonus = bonus_value v (cb (int j) (int (length xs)) (xs ! j)),
       top_products = top_of (products_sold (xs ! j))\<rparr>"
  by (simp add: rank_v_def)

lemma rank_v_length [simp]: "length (rank_v v cb xs) = length xs"
  by (simp add: rank_v_def)

lemma rank_fold_inv:
  fixes h :: store and st :: "stats list" and v :: variant and cb :: bonus_fn
  defines "ranking \<equiv> map (\<lambda>i. length h + i) (ranking_of st)"
  defines "R \<equiv> rank_v v cb (sort_by_profit st)"
  assumes "k \<le> length st"
  shows "length (fold (rank_step_store v cb ranking) [0..<k] (with_stats h st ranking))
           = length h + length st + 1
       \<and> (\<forall>j<length st. rd (fold (rank_step_store v cb ranking) [0..<k] (with_stats h st ranking)) (ranking ! j)
            = Some (if j < k then RankedCell (R ! j) else StatsCell (sort_by_profit st ! j)))"
  using assms(3)
proof (induction k)
  case 0
  have "rd (with_stats h st ranking) (ranking ! j) = Some (StatsCell (sort_by_profit st ! j))"
    if "j < length st" for j
  proof -
    have p: "ranking_of st ! j < length st"
      using that ranking_of_props [of st] by (metis atLeastLessThan_iff nth_mem)
    have "ranking ! j = length h + ranking_of st ! j"
      using that by (simp add: ranking_def ranking_of_props)
    then show ?thesis using p that
      by (simp add: rd_with_stats_new sort_by_profit_ranking ranking_of_props)
  qed
  then show ?case by (simp add: with_stats_def)
next
  case (Suc k)
  let ?hk = "fold (rank_step_store v cb ranking) [0..<k] (with_stats h st ranking)"
  have k: "k < length st" using Suc.prems by simp
  have len: "length ?hk = length h + length st + 1"
    and cells: "\<And>j. j < length st \<Longrightarrow> rd ?hk (ranking ! j)
            = Some (if j < k then RankedCell (R ! j) else StatsCell (sort_by_profit st ! j))"
    using Suc.IH k by simp_all
  have lr: "length ranking = length st" by (simp add: ranking_def ranking_of_props)
  have dr: "distinct ranking"
    unfolding ranking_def by (simp add: distinct_map ranking_of_props inj_on_def)
  have sk: "stats_at ?hk (ranking ! k) = Some (sort_by_profit st ! k)"
    using cells [OF k] by (simp add: stats_at_def)
  have lt: "ranking ! k < length ?hk"
    using cells [OF k] by (rule rd_Some_less)
  have Rk: "R ! k = stats.extend (sort_by_profit st ! k)
      \<lparr>bonus = bonus_value v (cb (int k) (int (length ranking)) (sort_by_profit st ! k)),
       top_products = top_of (products_sold (sort_by_profit st ! k))\<rparr>"
    unfolding R_def using k by (simp add: rank_v_nth lr)
  have step: "rank_step_store v cb ranking k ?hk = ?hk[ranking ! k := RankedCell (R ! k)]"
    by (simp add: rank_step_store_def sk Rk)
  have f: "fold (rank_step_store v cb ranking) [0..<Suc k] (with_stats h st ranking)
             = ?hk[ranking ! k := RankedCell (R ! k)]"
    using step by simp
  have "rd (?hk[ranking ! k := RankedCell (R ! k)]) (ranking ! j)
          = Some (if j < Suc k then RankedCell (R ! j) else StatsCell (sort_by_profit st ! j))"
    if j: "j < length st" for j
  proof (cases "j = k")
    case True
    then show ?thesis using lt by (simp add: rd_update)
  next
    case False
    then have "ranking ! j \<noteq> ranking ! k"
      using dr j k lr by (simp add: nth_eq_iff_index_eq)
    then show ?thesis using cells [OF j] False by (auto simp: rd_update)
  qed
  then show ?case unfolding f using len by simp
qed

lemma rank_fold_reports:
  fixes h :: store and st :: "stats list"
  defines "ranking \<equiv> map (\<lambda>i. length h + i) (ranking_of st)"
  shows "reports_at v (fold (rank_step_store v cb ranking) [0..<length ranking] (with_stats h st ranking)) ranking
           = map (report_of v) (rank_v v cb (sort_by_profit st))"
proof -
  let ?h4 = "fold (rank_step_store v cb ranking) [0..<length st] (with_stats h st ranking)"
  let ?R = "rank_v v cb (sort_by_profit st)"
  have lr: "length ranking = length st" by (simp add: ranking_def ranking_of_props)
  have cells: "\<And>j. j < length st \<Longrightarrow> rd ?h4 (ranking ! j) = Some (RankedCell (?R ! j))"
    using rank_fold_inv [of "length st" st v cb h] by (simp add: ranking_def)
  have "reports_at v ?h4 (map (\<lambda>j. ranking ! j) [0..<length st])
          = map (\<lambda>j. report_of v (?R ! j)) [0..<length st]"
    unfolding reports_at_def map_filter_map
    by (rule map_filter_all_Some) (simp add: cells)
  moreover have "map (\<lambda>j. ranking ! j) [0..<length st] = ranking"
    using map_nth [of ranking] lr by simp
  moreover have "map (\<lambda>j. report_of v (?R ! j)) [0..<length st] = map (report_of v) ?R"
    by (rule nth_equalityI) (simp_all add: sort_by_profit_ranking ranking_of_props)
  ultimately show ?thesis using lr by simp
qed

lemma result_of_appended:
  "result_of (Returned (length h + length reports),
      h @ map ReportCell reports @ [ArrayCell [length h..<length h + length reports]])
     = Some (Inr reports)"
proof -
  let ?h = "h @ map ReportCell reports @ [ArrayCell [length h..<length h + length reports]]"
  have a: "array_at ?h (length h + length reports) = Some [length h..<length h + length reports]"
    using array_at_append [of h "map ReportCell reports"] by simp
  have "list_all2 (\<lambda>a r. read_report ?h a = Some r) [length h..<length h + length reports] reports"
    unfolding list_all2_conv_all_nth
    by (simp add: read_report_def rd_def nth_append)
  then have "read_all (read_report ?h) [length h..<length h + length reports] = Some reports"
    by (simp add: read_all_Some)
  then show ?thesis using a by simp
qed

lemma read_field_facts:
  assumes "read_field h f r = Some F"
  shows "isArray_ref h r = isArray F"
    and "list_all2 (\<lambda>a x. f h a = Some x) (elems_ref h r) (elems F)"
proof -
  have "isArray_ref h r = isArray F \<and> list_all2 (\<lambda>a x. f h a = Some x) (elems_ref h r) (elems F)"
  proof (cases r)
    case (Ref a)
    show ?thesis
    proof (cases "array_at h a")
      case None
      then show ?thesis using assms Ref
        by (auto simp: read_field_def isArray_ref_def elems_ref_def)
    next
      case (Some as)
      then obtain xs where "read_all (f h) as = Some xs" "F = Array xs"
        using assms Ref by (auto simp: read_field_def split: option.splits)
      then show ?thesis using Some Ref
        by (simp add: isArray_ref_def elems_ref_def read_all_Some)
    qed
  qed (use assms in \<open>auto simp: read_field_def isArray_ref_def elems_ref_def\<close>)
  then show "isArray_ref h r = isArray F"
    and "list_all2 (\<lambda>a x. f h a = Some x) (elems_ref h r) (elems F)" by simp_all
qed

lemma read_data_fields:
  assumes "read_data h a = Some d"
  obtains s p r where "data_fields h (Some a) = Some (s, p, r)"
    and "read_field h read_seller s = Some (sellers d)"
    and "read_field h read_product p = Some (products d)"
    and "read_field h read_record r = Some (purchase_records d)"
  using assms
  by (auto simp: read_data_def data_fields_def split: option.splits cell.splits)

lemma sellers_at_read:
  "list_all2 (\<lambda>a x. read_seller h a = Some x) as ss \<Longrightarrow> sellers_at h as = ss"
  unfolding sellers_at_def
  by (induction as ss rule: list_all2_induct)
     (auto simp: read_seller_def split: option.splits cell.splits)

lemma elems_ref_with_stats:
  "isArray_ref h r \<Longrightarrow> elems_ref (with_stats h st arr) r = elems_ref h r"
  by (auto simp: isArray_ref_def elems_ref_def array_at_with_stats_old split: js_ref.splits)

lemma init_stats_length [simp]: "length (init_stats ss) = length ss"
  by (simp add: init_stats_def)

lemma records_v_length [simp]:
  "length (fold (record_step_v v cr pidx sidx) rs st) = length st"
  by (induction rs arbitrary: st) simp_all

lemma invalid_data_store_read:
  assumes "read_data h a = Some d"
  shows "invalid_data_store h (Some a) = invalid_data (Some d)"
proof -
  from assms obtain s p r where df: "data_fields h (Some a) = Some (s, p, r)"
    and fs: "read_field h read_seller s = Some (sellers d)"
    and fp: "read_field h read_product p = Some (products d)"
    and fr: "read_field h read_record r = Some (purchase_records d)"
    by (rule read_data_fields)
  note s = read_field_facts [OF fs] and p = read_field_facts [OF fp] and r = read_field_facts [OF fr]
  have len: "length (elems_ref h s) = length (elems (sellers d))"
    "length (elems_ref h p) = length (elems (products d))"
    "length (elems_ref h r) = length (elems (purchase_records d))"
    using s(2) p(2) r(2) by (simp_all add: list_all2_lengthD)
  show ?thesis
    unfolding invalid_data_store_def invalid_data_def df
    by (simp only: len s(1) p(1) r(1) option.case prod.case)
qed

lemma store_run:
  assumes rd: "read_data h a = Some d" and valid: "\<not> invalid_data (Some d)"
  shows "result_of (analyzeSalesData_store v h (Some a) (OptObject (Function cr) (Function cb)))
       = Some (Inr (reports_v v cr cb (elems (sellers d)) (elems (products d))
                     (elems (purchase_records d))))"
proof -
  from rd obtain s p r where df: "data_fields h (Some a) = Some (s, p, r)"
    and fs: "read_field h read_seller s = Some (sellers d)"
    and fp: "read_field h read_product p = Some (products d)"
    and fr: "read_field h read_record r = Some (purchase_records d)"
    by (rule read_data_fields)
  note s = read_field_facts [OF fs] and p = read_field_facts [OF fp] and r = read_field_facts [OF fr]
  have inv: "invalid_data_store h (Some a) = invalid_data (Some d)"
    using rd by (rule invalid_data_store_read)
  let ?ss = "elems (sellers d)" and ?ps = "elems (products d)" and ?rs = "elems (purchase_records d)"
  define fresh where "fresh = init_stats ?ss"
  define stat_refs where "stat_refs = [length h..<length h + length fresh]"
  define st2 where "st2 = fold (record_step_v v cr (productIndex ?ps) (sellerIndex fresh)) ?rs fresh"
  define ranking where "ranking = map (\<lambda>i. length h + i) (ranking_of st2)"
  define h4 where "h4 = fold (rank_step_store v cb ranking) [0..<length ranking] (with_stats h st2 ranking)"
  define reports where "reports = reports_v v cr cb ?ss ?ps ?rs"
  have l2: "length st2 = length fresh" by (simp add: st2_def)
  have arrs: "isArray_ref h p" "isArray_ref h r"
    using valid p(1) r(1) by (simp_all add: invalid_data_def)
  have e0: "init_stats (sellers_at h (elems_ref h s)) = fresh"
    using s(2) by (simp add: fresh_def sellers_at_read)
  have e1: "h @ map StatsCell fresh @ [ArrayCell stat_refs] = with_stats h fresh stat_refs"
    by (simp add: with_stats_def)
  have e2: "sellerIndex_store (with_stats h fresh stat_refs) stat_refs
              = (\<lambda>k. map_option (\<lambda>i. length h + i) (sellerIndex fresh k))"
    unfolding stat_refs_def by (intro ext) (rule sellerIndex_store_with_stats)
  have e3: "fold (record_step_store v cr
                (productIndex_store (with_stats h fresh stat_refs) (elems_ref h p))
                (\<lambda>k. map_option (\<lambda>i. length h + i) (sellerIndex fresh k)))
              (elems_ref h r) (with_stats h fresh stat_refs)
            = with_stats h st2 stat_refs"
    unfolding st2_def
    by (rule records_sim [OF r(2) productIndex_store_rel [OF p(2)]])
       (simp_all add: sellerIndex_Some)
  have e4: "sort_store (length h + length fresh) (with_stats h st2 stat_refs) = with_stats h st2 ranking"
    unfolding stat_refs_def ranking_def l2 [symmetric] by (rule sort_store_with_stats)
  have e5: "array_at (with_stats h st2 ranking) (length h + length fresh) = Some ranking"
    unfolding l2 [symmetric] by (rule array_at_with_stats_arr)
  have e6: "reports_at v h4 ranking = reports"
    unfolding h4_def ranking_def reports_def reports_v_def st2_def fresh_def
    by (rule rank_fold_reports)
  have e7: "elems_ref (with_stats h fresh stat_refs) p = elems_ref h p"
    "elems_ref (with_stats h fresh stat_refs) r = elems_ref h r"
    using arrs by (simp_all add: elems_ref_with_stats)
  have run: "analyzeSalesData_store v h (Some a) (OptObject (Function cr) (Function cb))
      = (Returned (length h4 + length reports),
         h4 @ map ReportCell reports @ [ArrayCell [length h4..<length h4 + length reports]])"
    apply (simp only: analyzeSalesData_store_def Let_def inv valid if_False df option.case
        prod.case js_member.case options.sel options_not_object.simps
        options_missing_functions.simps isFunction.simps simp_thms)
    apply (simp only: e0 stat_refs_def [symmetric] e1 e2 e7 e3 e4 e5 option.case
        h4_def [symmetric] e6)
    done
  show "result_of (analyzeSalesData_store v h (Some a) (OptObject (Function cr) (Function cb)))
       = Some (Inr reports)"
    unfolding run by (rule result_of_appended)
qed

lemma isFunction_iff: "isFunction m = (\<exists>f. m = Function f)"
  by (cases m) simp_all

lemma store_thrown:
  "invalid_data_store h dat \<or> options_not_object opts \<or> options_missing_functions opts \<Longrightarrow>
   analyzeSalesData_store v h dat opts =
     (Thrown (if invalid_data_store h dat then InvalidData
              else if options_not_object opts then OptionsNotObject
              else OptionsMissingFunctions), h)"
  by (auto simp: analyzeSalesData_store_def)

text \<open>
  When the store holds the data \<open>d\<close> at the address \<open>a\<close>, a call on the store throws
  the error or returns the reports that the first embedding gives for \<open>d\<close>, in both
  files.
\<close>

theorem store_returns_the_reports:
  assumes "read_data h a = Some d"
  shows "result_of (analyzeSalesData_store variant_part h (Some a) opts)
           = Some (analyzeSalesData_part (Some d) opts)
       \<and> result_of (analyzeSalesData_store variant_main h (Some a) opts)
           = Some (analyzeSalesData_main (Some d) opts)"
proof (cases "invalid_data (Some d) \<or> options_not_object opts \<or> options_missing_functions opts")
  case True
  then have "invalid_data_store h (Some a) \<or> options_not_object opts \<or> options_missing_functions opts"
    using invalid_data_store_read [OF assms] by simp
  from store_thrown [OF this] True show ?thesis
    using invalid_data_store_read [OF assms]
    by (subst analyze_part_cases, subst analyze_main_cases) auto
next
  case False
  then obtain cr cb where o: "opts = OptObject (Function cr) (Function cb)"
    by (cases opts rule: options_missing_functions.cases) (auto simp: isFunction_iff)
  from False have v: "\<not> invalid_data (Some d)" by simp
  show ?thesis
    unfolding o
    by (simp add: store_run [OF assms v] reports_v_part reports_v_main
        analyze_part_valid [OF v] analyze_main_valid [OF v])
qed

lemma lone_seller_store_holds: "read_data lone_seller_store 0 = lone_seller_data"
  unfolding lone_seller_store_def lone_seller_data_def by code_simp

end
